theory Spec2Isabelle
  imports
    Main
    "HOL-Library.Char_ord"
    "HOL-Library.List_Lexorder"
    "HOL-Library.Sublist"
    "HOL-Library.Multiset"
    "HOL-Library.FSet"
begin

section \<open>Errors and values\<close>

text \<open>
  Every exception of the Python source is a value. The first nine constructors are
  exception classes of Python and its standard library (\<open>BinasciiError\<close> is
  \<^verbatim>\<open>binascii.Error\<close>), the others are the classes of \<^verbatim>\<open>candig.metadata.exceptions\<close>
  that the modelled functions raise. The exception module is not part of the sources;
  its classes are taken to be distinct from each other and from the built-in ones.
  In Python \<^verbatim>\<open>binascii.Error\<close>, \<^verbatim>\<open>UnicodeDecodeError\<close> and \<^verbatim>\<open>UnicodeEncodeError\<close> are
  subclasses of \<^verbatim>\<open>ValueError\<close>; an \<^verbatim>\<open>except\<close> clause is modelled with the classes it
  catches written out.
\<close>

datatype error =
    TypeError
  | KeyError
  | AttributeError
  | IndexError
  | ValueError
  | NameError
  | BinasciiError
  | UnicodeDecodeError
  | UnicodeEncodeError
  | BadInputTypeException
  | BadFilterKeyException
  | BadRequestException string
  | BadFieldNameException
  | BadFieldNameNoCloseMatchException
  | NotAuthorizedException string
  | DatasetNotFoundException
  | MissingFieldNameException string
  | InvalidLogicException string
  | BadPageSizeException
  | BadIdentifierException
  | BadIdentifierNotStringException
  | ObjectWithIdNotFoundException

text \<open>
  The values that field getters return and that filters carry: strings, integers and
  \<^verbatim>\<open>None\<close>. All of them are hashable, so they can be members of a Python set.
\<close>

datatype pyval = PStr string | PInt int | PNone

section \<open>The operator table of the backend\<close>

text \<open>
  \<^verbatim>\<open>operator.gt\<close>, \<^verbatim>\<open>lt\<close>, \<^verbatim>\<open>ge\<close>, \<^verbatim>\<open>le\<close>: defined between two integers and between two
  strings (lexicographic), a \<^verbatim>\<open>TypeError\<close> otherwise. \<^verbatim>\<open>eq\<close> and \<^verbatim>\<open>ne\<close> never raise.
  \<^verbatim>\<open>operator.contains(a, b)\<close> is \<^verbatim>\<open>b in a\<close>: a substring test between strings.
\<close>

fun py_gt :: "pyval \<Rightarrow> pyval \<Rightarrow> error + bool" where
  "py_gt (PInt a) (PInt b) = Inr (a > b)"
| "py_gt (PStr a) (PStr b) = Inr (a > b)"
| "py_gt _ _ = Inl TypeError"

fun py_lt :: "pyval \<Rightarrow> pyval \<Rightarrow> error + bool" where
  "py_lt (PInt a) (PInt b) = Inr (a < b)"
| "py_lt (PStr a) (PStr b) = Inr (a < b)"
| "py_lt _ _ = Inl TypeError"

fun py_ge :: "pyval \<Rightarrow> pyval \<Rightarrow> error + bool" where
  "py_ge (PInt a) (PInt b) = Inr (a \<ge> b)"
| "py_ge (PStr a) (PStr b) = Inr (a \<ge> b)"
| "py_ge _ _ = Inl TypeError"

fun py_le :: "pyval \<Rightarrow> pyval \<Rightarrow> error + bool" where
  "py_le (PInt a) (PInt b) = Inr (a \<le> b)"
| "py_le (PStr a) (PStr b) = Inr (a \<le> b)"
| "py_le _ _ = Inl TypeError"

definition py_eq :: "pyval \<Rightarrow> pyval \<Rightarrow> error + bool" where
  "py_eq a b = Inr (a = b)"

definition py_ne :: "pyval \<Rightarrow> pyval \<Rightarrow> error + bool" where
  "py_ne a b = Inr (a \<noteq> b)"

fun py_contains :: "pyval \<Rightarrow> pyval \<Rightarrow> error + bool" where
  "py_contains (PStr a) (PStr b) = Inr (sublist b a)"
| "py_contains _ _ = Inl TypeError"

text \<open>\<^verbatim>\<open>self.ops\<close>, the dictionary built in \<^verbatim>\<open>Backend.__init__\<close>.\<close>

definition ops :: "(string \<times> (pyval \<Rightarrow> pyval \<Rightarrow> error + bool)) list" where
  "ops =
    [(''>'', py_gt), (''gt'', py_gt),
     (''<'', py_lt), (''lt'', py_lt),
     (''>='', py_ge), (''ge'', py_ge),
     (''<='', py_le), (''le'', py_le),
     (''eq'', py_eq), (''='', py_eq), (''=='', py_eq),
     (''!='', py_ne), (''ne'', py_ne),
     (''contains'', py_contains)]"

text \<open>
  \<^verbatim>\<open>str.lower()\<close> on the letters A to Z. No key of the operator table has a character
  that is the lower case of a character outside ASCII, so for the lookup in the table
  this is what Python computes.
\<close>

definition lower_char :: "char \<Rightarrow> char" where
  "lower_char c =
     (case map_of (zip ''ABCDEFGHIJKLMNOPQRSTUVWXYZ'' ''abcdefghijklmnopqrstuvwxyz'') c of
        Some l \<Rightarrow> l
      | None \<Rightarrow> c)"

definition lower :: "string \<Rightarrow> string" where
  "lower s = map lower_char s"

section \<open>Filters\<close>

text \<open>
  A filter of a request is a dictionary; the code reads the keys \<^verbatim>\<open>field\<close>,
  \<^verbatim>\<open>operator\<close>, \<^verbatim>\<open>value\<close> and \<^verbatim>\<open>values\<close> only. A key that is absent is \<open>None\<close>.
  \<open>raw_filter\<close> is the filter as it arrives (\<^verbatim>\<open>values\<close> is a list), \<open>filt\<close> the filter
  after \<^verbatim>\<open>filtersValidator\<close> (\<^verbatim>\<open>values\<close> is a set).
\<close>

record raw_filter =
  r_field :: "string option"
  r_operator :: "string option"
  r_value :: "pyval option"
  r_values :: "pyval list option"

record filt =
  f_field :: "string option"
  f_operator :: "string option"
  f_value :: "pyval option"
  f_values :: "pyval fset option"

text \<open>
  An object is known to the filter engine through its \<^verbatim>\<open>mapper\<close> method only, which
  returns the value of a field or raises.
\<close>

type_synonym 'o mapper = "'o \<Rightarrow> string \<Rightarrow> error + pyval"

text \<open>
  One pass of the loop body of \<^verbatim>\<open>comparisonGenerator\<close>: \<open>Inr True\<close> when the loop
  goes on, \<open>Inr False\<close> when it sets \<^verbatim>\<open>qualified = False\<close> and breaks, \<open>Inl e\<close> when
  the body raises \<open>e\<close>. Python evaluates the callee \<^verbatim>\<open>self.ops[...]\<close> before the
  arguments.
\<close>

definition filter_step :: "'o mapper \<Rightarrow> 'o \<Rightarrow> filt \<Rightarrow> error + bool" where
  "filter_step mapper obj f =
     (case f_value f of
        None \<Rightarrow>
          (case f_values f of
             None \<Rightarrow> Inr False
           | Some vs \<Rightarrow>
               (case f_field f of
                  None \<Rightarrow> Inl KeyError
                | Some fld \<Rightarrow>
                    (case mapper obj fld of
                       Inl e \<Rightarrow> Inl e
                     | Inr v \<Rightarrow> Inr (v |\<in>| vs))))
      | Some x \<Rightarrow>
          (case f_operator f of
             None \<Rightarrow> Inl KeyError
           | Some opn \<Rightarrow>
               (case map_of ops (lower opn) of
                  None \<Rightarrow> Inl KeyError
                | Some opf \<Rightarrow>
                    (case f_field f of
                       None \<Rightarrow> Inl KeyError
                     | Some fld \<Rightarrow>
                         (case mapper obj fld of
                            Inl e \<Rightarrow> Inl e
                          | Inr v \<Rightarrow> opf v x)))))"

fun comparison_loop :: "'o mapper \<Rightarrow> 'o \<Rightarrow> filt list \<Rightarrow> error + bool" where
  "comparison_loop mapper obj [] = Inr True"
| "comparison_loop mapper obj (f # fs) =
     (case filter_step mapper obj f of
        Inl e \<Rightarrow> Inl e
      | Inr False \<Rightarrow> Inr False
      | Inr True \<Rightarrow> comparison_loop mapper obj fs)"

text \<open>The two \<^verbatim>\<open>except\<close> clauses around the loop.\<close>

fun comparison_except :: "error \<Rightarrow> error" where
  "comparison_except TypeError = BadInputTypeException"
| "comparison_except KeyError = BadFilterKeyException"
| "comparison_except AttributeError = BadFilterKeyException"
| "comparison_except e = e"

definition comparisonGenerator :: "'o mapper \<Rightarrow> 'o \<Rightarrow> filt list \<Rightarrow> error + bool" where
  "comparisonGenerator mapper obj filters =
     (case comparison_loop mapper obj filters of
        Inl e \<Rightarrow> Inl (comparison_except e)
      | Inr qualified \<Rightarrow> Inr qualified)"

text \<open>
  \<^verbatim>\<open>filtersValidator\<close>: the checks of one filter, in the order of the source, then the
  loop over the filters, which stops at the first one that raises.
\<close>

definition validate_filter :: "raw_filter \<Rightarrow> error + filt" where
  "validate_filter r =
     (if r_field r = None \<or> r_operator r = None then
        Inl (BadRequestException ''Please specify field and/or operator in your filters.'')
      else if r_value r \<noteq> None \<and> r_values r \<noteq> None then
        Inl (BadRequestException ''You can only specify one of value or values in one filter.'')
      else if r_value r \<noteq> None then
        (if r_operator r = Some ''in'' then
           Inl (BadRequestException ''You can only use the in operator when you supply a list of values in your filter, specify 'values' instead of 'value'.'')
         else Inr \<lparr>f_field = r_field r, f_operator = r_operator r,
                    f_value = r_value r, f_values = None\<rparr>)
      else
        (case r_values r of
           Some vs \<Rightarrow>
             (if r_operator r \<noteq> Some ''in'' then
                Inl (BadRequestException ''If you specify a list of values in your filter, the operator has to be in.'')
              else Inr \<lparr>f_field = r_field r, f_operator = r_operator r,
                         f_value = None, f_values = Some (fset_of_list vs)\<rparr>)
         | None \<Rightarrow>
             Inl (BadRequestException ''You need to specify one of value or values in one filter.'')))"

fun filtersValidator :: "raw_filter list \<Rightarrow> error + filt list" where
  "filtersValidator [] = Inr []"
| "filtersValidator (r # rs) =
     (case validate_filter r of
        Inl e \<Rightarrow> Inl e
      | Inr f \<Rightarrow>
          (case filtersValidator rs of
             Inl e \<Rightarrow> Inl e
           | Inr fs \<Rightarrow> Inr (f # fs)))"

section \<open>Access tiers\<close>

text \<open>
  A dataset, as far as the search generators use it: its local name and the
  collection that the generator's getter (\<^verbatim>\<open>getPatients\<close>, \<^verbatim>\<open>getEnrollments\<close>, ...)
  returns. The data repository maps dataset ids to datasets; the access map gives
  the tier of a dataset name.
\<close>

record 'o dataset =
  ds_localId :: string
  ds_collection :: "'o list"

definition getDataset :: "(string \<rightharpoonup> 'o dataset) \<Rightarrow> string \<Rightarrow> error + 'o dataset" where
  "getDataset repo ident =
     (case repo ident of None \<Rightarrow> Inl DatasetNotFoundException | Some d \<Rightarrow> Inr d)"

definition getUserAccessTier :: "'o dataset \<Rightarrow> (string \<rightharpoonup> int) \<Rightarrow> error + int" where
  "getUserAccessTier dataset access_map =
     (let dataset_name = ds_localId dataset in
      case access_map dataset_name of
        Some tier \<Rightarrow> Inr tier
      | None \<Rightarrow> Inl (NotAuthorizedException ''Not authorized to access this dataset''))"

section \<open>Paging\<close>

text \<open>\<^verbatim>\<open>str\<close> of an integer: its decimal digits, with a minus sign when negative.\<close>

definition digit_char :: "nat \<Rightarrow> char" where
  "digit_char d = ''0123456789'' ! d"

function str_nat :: "nat \<Rightarrow> string" where
  "str_nat n = (if n < 10 then [digit_char n] else str_nat (n div 10) @ [digit_char (n mod 10)])"
  by pat_completeness auto
termination
  by (relation "measure id") auto

declare str_nat.simps [simp del]

definition str_int :: "int \<Rightarrow> string" where
  "str_int i = (if i < 0 then CHR ''-'' # str_nat (nat (- i)) else str_nat (nat i))"

text \<open>
  What a generator produces when it is run to its end: the values it yields, in
  order, ended by its return (\<open>Done\<close>) or by an exception (\<open>Raise\<close>).
\<close>

datatype 'a gen = Done | Yield 'a "'a gen" | Raise error

fun gen_of_list :: "'a list \<Rightarrow> 'a gen" where
  "gen_of_list [] = Done"
| "gen_of_list (x # xs) = Yield x (gen_of_list xs)"

text \<open>
  \<^verbatim>\<open>paging._parsePageToken\<close> is not part of the sources: it is the parameter
  \<open>parsePageToken\<close>, which takes the token and the number of values expected. The
  unpacking \<^verbatim>\<open>currentIndex, = ...\<close> raises \<^verbatim>\<open>ValueError\<close> unless one value comes back.
\<close>

type_synonym token_parser = "string \<Rightarrow> nat \<Rightarrow> error + int list"

definition start_index :: "token_parser \<Rightarrow> string \<Rightarrow> error + int" where
  "start_index parsePageToken page_token =
     (if page_token = [] then Inr 0
      else case parsePageToken page_token 1 of
             Inl e \<Rightarrow> Inl e
           | Inr [currentIndex] \<Rightarrow> Inr currentIndex
           | Inr _ \<Rightarrow> Inl ValueError)"

text \<open>
  The \<^verbatim>\<open>while\<close> loop shared by \<^verbatim>\<open>_topLevelObjectGenerator\<close> and
  \<^verbatim>\<open>_protocolObjectGenerator\<close>; \<open>conv\<close> is what is done to the object before it is
  yielded.
\<close>

function object_loop ::
  "int \<Rightarrow> int \<Rightarrow> (int \<Rightarrow> error + 'o) \<Rightarrow> ('o \<Rightarrow> 'p) \<Rightarrow> ('p \<times> string option) gen" where
  "object_loop currentIndex numObjects getByIndexMethod conv =
     (if currentIndex < numObjects then
        (case getByIndexMethod currentIndex of
           Inl e \<Rightarrow> Raise e
         | Inr ob \<Rightarrow>
             Yield (conv ob,
                    if currentIndex + 1 < numObjects then Some (str_int (currentIndex + 1))
                    else None)
               (object_loop (currentIndex + 1) numObjects getByIndexMethod conv))
      else Done)"
  by pat_completeness auto
termination
  by (relation "measure (\<lambda>(i, n, g, c). nat (n - i))") auto

declare object_loop.simps [simp del]

definition topLevelObjectGenerator ::
  "token_parser \<Rightarrow> string \<Rightarrow> int \<Rightarrow> (int \<Rightarrow> error + 'o) \<Rightarrow> ('o \<Rightarrow> int \<Rightarrow> 'p) \<Rightarrow> int
     \<Rightarrow> ('p \<times> string option) gen" where
  "topLevelObjectGenerator parsePageToken page_token numObjects getByIndexMethod
       toProtocolElement tier =
     (case start_index parsePageToken page_token of
        Inl e \<Rightarrow> Raise e
      | Inr currentIndex \<Rightarrow>
          object_loop currentIndex numObjects getByIndexMethod
            (\<lambda>ob. toProtocolElement ob tier))"

definition protocolObjectGenerator ::
  "token_parser \<Rightarrow> string \<Rightarrow> int \<Rightarrow> (int \<Rightarrow> error + 'p) \<Rightarrow> ('p \<times> string option) gen" where
  "protocolObjectGenerator parsePageToken page_token numObjects getByIndexMethod =
     (case start_index parsePageToken page_token of
        Inl e \<Rightarrow> Raise e
      | Inr currentIndex \<Rightarrow>
          object_loop currentIndex numObjects getByIndexMethod (\<lambda>ob. ob))"

text \<open>\<^verbatim>\<open>objectList[index]\<close>: a negative index counts from the end of the list.\<close>

definition py_index :: "'a list \<Rightarrow> int \<Rightarrow> error + 'a" where
  "py_index xs i =
     (if 0 \<le> i \<and> i < int (length xs) then Inr (xs ! nat i)
      else if i < 0 \<and> - int (length xs) \<le> i then Inr (xs ! nat (int (length xs) + i))
      else Inl IndexError)"

definition objectListGenerator ::
  "token_parser \<Rightarrow> string \<Rightarrow> 'o list \<Rightarrow> ('o \<Rightarrow> int \<Rightarrow> 'p) \<Rightarrow> int \<Rightarrow> ('p \<times> string option) gen" where
  "objectListGenerator parsePageToken page_token objectList toProtocolElement tier =
     topLevelObjectGenerator parsePageToken page_token (int (length objectList))
       (\<lambda>index. py_index objectList index) toProtocolElement tier"

definition protocolListGenerator ::
  "token_parser \<Rightarrow> string \<Rightarrow> 'p list \<Rightarrow> ('p \<times> string option) gen" where
  "protocolListGenerator parsePageToken page_token objectList =
     protocolObjectGenerator parsePageToken page_token (int (length objectList))
       (\<lambda>index. py_index objectList index)"

section \<open>The search generators\<close>

text \<open>
  A search request: the dataset, the filters as they arrive and the page token.
\<close>

record request =
  rq_dataset_id :: string
  rq_filters :: "raw_filter list"
  rq_page_token :: string
  rq_page_size :: int

text \<open>
  The \<^verbatim>\<open>for\<close> loop of the generators: the objects that qualify, in the order of the
  collection; the first exception of \<^verbatim>\<open>comparisonGenerator\<close> ends it.
\<close>

fun scan :: "'o mapper \<Rightarrow> filt list \<Rightarrow> 'o list \<Rightarrow> error + 'o list" where
  "scan mapper fs [] = Inr []"
| "scan mapper fs (obj # objs) =
     (case comparisonGenerator mapper obj fs of
        Inl e \<Rightarrow> Inl e
      | Inr qualified \<Rightarrow>
          (case scan mapper fs objs of
             Inl e \<Rightarrow> Inl e
           | Inr results \<Rightarrow> Inr (if qualified then obj # results else results)))"

text \<open>
  \<^verbatim>\<open>patientsGenerator\<close>, \<^verbatim>\<open>enrollmentsGenerator\<close> and the twenty-one other search
  generators of the backend have the same body and differ in the getter of the
  collection only, which is the field \<open>ds_collection\<close> of the dataset here.
\<close>

definition entitiesGenerator ::
  "(string \<rightharpoonup> 'o dataset) \<Rightarrow> 'o mapper \<Rightarrow> token_parser \<Rightarrow> ('o \<Rightarrow> int \<Rightarrow> 'p) \<Rightarrow> request
     \<Rightarrow> (string \<rightharpoonup> int) \<Rightarrow> error + ('p \<times> string option) gen" where
  "entitiesGenerator repo mapper parsePageToken toProtocolElement request access_map =
     (case getDataset repo (rq_dataset_id request) of
        Inl e \<Rightarrow> Inl e
      | Inr dataset \<Rightarrow>
          (case getUserAccessTier dataset access_map of
             Inl e \<Rightarrow> Inl e
           | Inr tier \<Rightarrow>
               (case filtersValidator (rq_filters request) of
                  Inl e \<Rightarrow> Inl e
                | Inr fs \<Rightarrow>
                    (case scan mapper fs (ds_collection dataset) of
                       Inl e \<Rightarrow> Inl e
                     | Inr results \<Rightarrow>
                         Inr (objectListGenerator parsePageToken (rq_page_token request)
                                results toProtocolElement tier)))))"


section \<open>Pages of a search\<close>

text \<open>
  Modelled from the spec: \<^verbatim>\<open>response_builder.SearchResponseBuilder\<close> is not part of the
  sources. The specification gives it two independent caps, a maximum number of items
  (the page size) and a maximum number of serialized bytes; the builder is full as
  soon as one of them is reached. \<open>size_of\<close> is the serialized size of one item.
\<close>

definition isFull :: "int \<Rightarrow> nat \<Rightarrow> ('p \<Rightarrow> nat) \<Rightarrow> 'p list \<Rightarrow> bool" where
  "isFull pageSize maxBufferSize size_of vals \<longleftrightarrow>
     pageSize \<le> int (length vals) \<or> maxBufferSize \<le> sum_list (map size_of vals)"

text \<open>The response of a search: the objects of the page and the token of the next page.\<close>

record 'p response =
  rs_values :: "'p list"
  rs_nextPageToken :: "string option"

text \<open>
  The \<^verbatim>\<open>for\<close> loop of \<^verbatim>\<open>runSearchRequest\<close>: every pair of the generator adds its object
  to the builder and replaces \<^verbatim>\<open>nextPageToken\<close>; the loop breaks when the builder is
  full. The generator is lazy: what it would do after the break never happens.
\<close>

fun fill_page ::
  "('p list \<Rightarrow> bool) \<Rightarrow> 'p list \<Rightarrow> string option \<Rightarrow> ('p \<times> string option) gen
     \<Rightarrow> error + 'p response" where
  "fill_page full vals nextPageToken Done =
     Inr \<lparr>rs_values = vals, rs_nextPageToken = nextPageToken\<rparr>"
| "fill_page full vals nextPageToken (Raise e) = Inl e"
| "fill_page full vals nextPageToken (Yield (ob, tok) rest) =
     (if full (vals @ [ob]) then Inr \<lparr>rs_values = vals @ [ob], rs_nextPageToken = tok\<rparr>
      else fill_page full (vals @ [ob]) tok rest)"

text \<open>
  The settings of the backend that \<^verbatim>\<open>runSearchRequest\<close> reads. The request is taken
  as already parsed from its JSON text, and the response before its serialization.
\<close>

record 'p backend =
  defaultPageSize :: int
  maxResponseLength :: nat
  serializedSize :: "'p \<Rightarrow> nat"

definition runSearchRequest ::
  "'p backend \<Rightarrow> (request \<Rightarrow> 'am \<Rightarrow> error + ('p \<times> string option) gen) \<Rightarrow> request \<Rightarrow> 'am
     \<Rightarrow> error + 'p response" where
  "runSearchRequest backend objectGenerator request access_map =
     (let pageSize = (if rq_page_size request = 0 then defaultPageSize backend
                      else rq_page_size request) in
      if pageSize < 0 then Inl BadPageSizeException
      else
        (case objectGenerator (request\<lparr>rq_page_size := pageSize\<rparr>) access_map of
           Inl e \<Rightarrow> Inl e
         | Inr g \<Rightarrow>
             fill_page (isFull pageSize (maxResponseLength backend) (serializedSize backend))
               [] None g))"

text \<open>
  The \<^verbatim>\<open>while nextToken\<close> loop of \<^verbatim>\<open>endpointCaller\<close> for one component: as long as
  the last response had a token (an empty string counts as none), the request is sent
  again with this token and the objects of the response are added to those collected
  so far. The loop need not end for an arbitrary endpoint, so it runs on fuel: the
  result is \<open>None\<close> when the fuel is used up before the loop has ended.
\<close>

fun follow_tokens ::
  "nat \<Rightarrow> (request \<Rightarrow> error + 'p response) \<Rightarrow> request \<Rightarrow> 'p list \<Rightarrow> string option
     \<Rightarrow> (error + 'p list) option" where
  "follow_tokens fuel endpoint request collected None = Some (Inr collected)"
| "follow_tokens fuel endpoint request collected (Some []) = Some (Inr collected)"
| "follow_tokens 0 endpoint request collected (Some (c # cs)) = None"
| "follow_tokens (Suc fuel) endpoint request collected (Some (c # cs)) =
     (case endpoint (request\<lparr>rq_page_token := c # cs\<rparr>) of
        Inl e \<Rightarrow> Some (Inl e)
      | Inr r \<Rightarrow>
          follow_tokens fuel endpoint (request\<lparr>rq_page_token := c # cs\<rparr>)
            (collected @ rs_values r) (rs_nextPageToken r))"

definition all_pages ::
  "nat \<Rightarrow> (request \<Rightarrow> error + 'p response) \<Rightarrow> request \<Rightarrow> (error + 'p list) option" where
  "all_pages fuel endpoint request =
     (case endpoint request of
        Inl e \<Rightarrow> Some (Inl e)
      | Inr r \<Rightarrow> follow_tokens fuel endpoint request (rs_values r) (rs_nextPageToken r))"

text \<open>
  A search endpoint as the \<^verbatim>\<open>runSearch...\<close> methods build it, \<^verbatim>\<open>runSearchRequest\<close> on a
  generator, here the generator over \<open>numObjects\<close> objects that \<open>getByIndexMethod\<close>
  fetches.
\<close>

definition list_endpoint ::
  "'p backend \<Rightarrow> token_parser \<Rightarrow> int \<Rightarrow> (int \<Rightarrow> error + 'o) \<Rightarrow> ('o \<Rightarrow> int \<Rightarrow> 'p) \<Rightarrow> int
     \<Rightarrow> request \<Rightarrow> error + 'p response" where
  "list_endpoint backend parsePageToken numObjects getByIndexMethod toProtocolElement tier
       request =
     runSearchRequest backend
       (\<lambda>rq am. Inr (topLevelObjectGenerator parsePageToken (rq_page_token rq) numObjects
                       getByIndexMethod toProtocolElement tier))
       request ()"

section \<open>The logic of an advanced query\<close>

text \<open>
  The values that \<^verbatim>\<open>MessageToDict\<close> and \<^verbatim>\<open>json.loads\<close> produce. An object is the list of
  its keys with their values, in the order of the dictionary; its keys are distinct.
\<close>

datatype json =
    JNull
  | JBool bool
  | JNum int
  | JStr string
  | JArr "json list"
  | JObj "(string \<times> json) list"

text \<open>
  A row of the response of a component, as far as \<^verbatim>\<open>getResponsePatientId\<close> reads it:
  the keys \<^verbatim>\<open>patientId\<close> and \<^verbatim>\<open>variantSetId\<close>, both strings in the protocol.
\<close>

record response_row =
  row_patientId :: "string option"
  row_variantSetId :: "string option"

text \<open>
  What \<^verbatim>\<open>logicHandler\<close> is given besides the logic: the responses of the components by
  component id, whether the data repository knows the dataset id (\<^verbatim>\<open>getDataset\<close>), and
  what \<^verbatim>\<open>getAllPatientId\<close> returns or raises for the dataset and the access map.
\<close>

record logic_env =
  env_responses :: "(string \<times> response_row list) list"
  env_dataset_known :: bool
  env_all_patient_id :: "error + string list"

text \<open>
  \<^verbatim>\<open>getResponsePatientId\<close>. The class \<^verbatim>\<open>Dataset\<close> has no method \<^verbatim>\<open>getVariantSet\<close>, so the
  branch of \<^verbatim>\<open>variantSetId\<close> ends in an \<^verbatim>\<open>AttributeError\<close> once the dataset is found.
\<close>

definition getResponsePatientId :: "logic_env \<Rightarrow> response_row \<Rightarrow> error + string" where
  "getResponsePatientId env response =
     (case row_patientId response of
        Some patient_id \<Rightarrow> Inr patient_id
      | None \<Rightarrow>
          (case row_variantSetId response of
             Some vs \<Rightarrow>
               (if env_dataset_known env then Inl AttributeError
                else Inl DatasetNotFoundException)
           | None \<Rightarrow> Inl (BadRequestException [])))"

fun collect_ids :: "logic_env \<Rightarrow> response_row list \<Rightarrow> string fset \<Rightarrow> error + string fset" where
  "collect_ids env [] id_set = Inr id_set"
| "collect_ids env (response # rest) id_set =
     (case getResponsePatientId env response of
        Inl e \<Rightarrow> Inl e
      | Inr patient_id \<Rightarrow> collect_ids env rest (finsert patient_id id_set))"

text \<open>
  \<^verbatim>\<open>responses[logic[logic_key]]\<close>: a string is looked up, a list or an object is not
  hashable, and no other value is a key of the responses.
\<close>

fun lookup_responses :: "logic_env \<Rightarrow> json \<Rightarrow> error + response_row list" where
  "lookup_responses env (JStr ident) =
     (case map_of (env_responses env) ident of
        None \<Rightarrow> Inl KeyError
      | Some rows \<Rightarrow> Inr rows)"
| "lookup_responses env (JArr xs) = Inl TypeError"
| "lookup_responses env (JObj kvs) = Inl TypeError"
| "lookup_responses env v = Inl KeyError"

text \<open>The \<^verbatim>\<open>except KeyError\<close> clause around the branch of a component id.\<close>

fun id_except :: "error \<Rightarrow> error" where
  "id_except KeyError = InvalidLogicException ''Given id does not match a component''"
| "id_except e = e"

definition id_branch :: "logic_env \<Rightarrow> json \<Rightarrow> bool \<Rightarrow> error + string fset" where
  "id_branch env ident logic_negate =
     (case lookup_responses env ident of
        Inl e \<Rightarrow> Inl (id_except e)
      | Inr rows \<Rightarrow>
          (case collect_ids env rows {||} of
             Inl e \<Rightarrow> Inl (id_except e)
           | Inr id_set \<Rightarrow>
               if logic_negate then
                 (case env_all_patient_id env of
                    Inl e \<Rightarrow> Inl (id_except e)
                  | Inr id_list_all \<Rightarrow> Inr (fset_of_list id_list_all |-| id_set))
               else Inr id_set))"

text \<open>\<^verbatim>\<open>bool(logic['negate'])\<close>.\<close>

fun truthy :: "json \<Rightarrow> bool" where
  "truthy JNull = False"
| "truthy (JBool b) = b"
| "truthy (JNum n) = (n \<noteq> 0)"
| "truthy (JStr s) = (s \<noteq> [])"
| "truthy (JArr xs) = (xs \<noteq> [])"
| "truthy (JObj kvs) = (kvs \<noteq> [])"

text \<open>
  The branch of \<^verbatim>\<open>or\<close>: every id of every set is added. The branch of \<^verbatim>\<open>and\<close>: the sets
  are sorted by their size (a stable sort, as \<^verbatim>\<open>list.sort\<close> is), and the ids of the
  first set that are in all the others are kept; \<^verbatim>\<open>results_arr[0]\<close> raises an
  \<^verbatim>\<open>IndexError\<close> when there is no set.
\<close>

definition or_sets :: "string fset list \<Rightarrow> string fset" where
  "or_sets results_arr = fold (\<lambda>id_set patient_set. patient_set |\<union>| id_set) results_arr {||}"

definition and_sets :: "string fset list \<Rightarrow> error + string fset" where
  "and_sets results_arr =
     (case sort_key fcard results_arr of
        [] \<Rightarrow> Inl IndexError
      | smallest # others \<Rightarrow>
          Inr (ffilter (\<lambda>patient_id. list_all (\<lambda>id_set. patient_id |\<in>| id_set) others)
                 smallest))"

definition combine :: "string \<Rightarrow> string fset list \<Rightarrow> error + string fset" where
  "combine logic_key results_arr =
     (if logic_key = ''or'' then Inr (or_sets results_arr) else and_sets results_arr)"

definition op_keys :: "string list" where
  "op_keys = [''and'', ''or'']"

text \<open>
  What \<^verbatim>\<open>logicHandler\<close> raises when its logic is a string, as happens for the elements
  of a string or the keys of an object that stand where the list of an operator is
  expected: \<^verbatim>\<open>keys()\<close> is no attribute of a string.
\<close>

definition str_logic_error :: "string \<Rightarrow> error" where
  "str_logic_error s =
     (if length s = 1 \<or> length s = 2 then AttributeError
      else InvalidLogicException ''Invalid number of keys'')"

text \<open>
  The loop \<^verbatim>\<open>for logic_obj in logic[logic_key]\<close> when the value is not a list: a string
  gives its characters, an object its keys, and the first of them makes
  \<^verbatim>\<open>logicHandler\<close> raise; any other value cannot be iterated.
\<close>

fun other_children :: "json \<Rightarrow> error + string fset list" where
  "other_children (JStr []) = Inr []"
| "other_children (JStr (c # cs)) = Inl (str_logic_error [c])"
| "other_children (JObj []) = Inr []"
| "other_children (JObj ((k, v) # kvs)) = Inl (str_logic_error k)"
| "other_children v = Inl TypeError"

text \<open>
  \<^verbatim>\<open>logicHandler\<close>. Its result, \<^verbatim>\<open>list(patient_set)\<close>, is a list of distinct ids in the
  order of a Python set, which is not specified: the result is the set.
\<close>

fun logicHandler :: "logic_env \<Rightarrow> json \<Rightarrow> error + string fset"
  and logicHandler_all :: "logic_env \<Rightarrow> json list \<Rightarrow> error + string fset list" where
  "logicHandler env (JObj [(logic_key, JArr children)]) =
     (if logic_key \<in> set op_keys then
        (case logicHandler_all env children of
           Inl e \<Rightarrow> Inl e
         | Inr results_arr \<Rightarrow> combine logic_key results_arr)
      else if logic_key = ''id'' then id_branch env (JArr children) False
      else Inl (InvalidLogicException ''Invalid key used''))"
| "logicHandler env (JObj [(logic_key, v)]) =
     (if logic_key \<in> set op_keys then
        (case other_children v of
           Inl e \<Rightarrow> Inl e
         | Inr results_arr \<Rightarrow> combine logic_key results_arr)
      else if logic_key = ''id'' then id_branch env v False
      else Inl (InvalidLogicException ''Invalid key used''))"
| "logicHandler env (JObj [(k1, v1), (k2, v2)]) =
     (if {k1, k2} = {''id'', ''negate''} then
        (if k1 = ''id'' then id_branch env v1 (truthy v2) else id_branch env v2 (truthy v1))
      else Inl (InvalidLogicException ''Invalid key combination''))"
| "logicHandler env (JObj kvs) = Inl (InvalidLogicException ''Invalid number of keys'')"
| "logicHandler env (JStr s) = Inl (str_logic_error s)"
| "logicHandler env (JArr xs) =
     (if length xs = 1 \<or> length xs = 2 then Inl AttributeError
      else Inl (InvalidLogicException ''Invalid number of keys''))"
| "logicHandler env v = Inl TypeError"
| "logicHandler_all env [] = Inr []"
| "logicHandler_all env (logic_obj # rest) =
     (case logicHandler env logic_obj of
        Inl e \<Rightarrow> Inl e
      | Inr id_list \<Rightarrow>
          (case logicHandler_all env rest of
             Inl e \<Rightarrow> Inl e
           | Inr results_arr \<Rightarrow> Inr (id_list # results_arr)))"

section \<open>The results of an advanced query\<close>

text \<open>
  The response of a search endpoint after \<^verbatim>\<open>json.loads\<close>: under the name of a table the
  list of its entries, each a dictionary from field names to values, and the token
  of the next page when there is one. \<open>response_json\<close> is the same response as one
  JSON value. JSON texts are identified with the values they denote: \<^verbatim>\<open>json.dumps\<close>
  and \<^verbatim>\<open>json.loads\<close> do not appear.
\<close>

type_synonym entry = "(string \<times> json) list"

record search_response =
  sr_tables :: "(string \<times> entry list) list"
  sr_nextPageToken :: "string option"

definition response_json :: "search_response \<Rightarrow> json" where
  "response_json r =
     JObj (map (\<lambda>(t, entries). (t, JArr (map JObj entries))) (sr_tables r) @
           (case sr_nextPageToken r of
              None \<Rightarrow> []
            | Some tok \<Rightarrow> [(''nextPageToken'', JStr tok)]))"

text \<open>
  \<^verbatim>\<open>fieldHandler\<close>: of every entry the requested fields that it has, in the order of the
  request (a field requested twice stays where it came first); entries left empty are
  dropped, and a table left empty is left out. The token is kept when it is not empty.
\<close>

definition project_entry :: "string list \<Rightarrow> entry \<Rightarrow> entry" where
  "project_entry field entry =
     map (\<lambda>k. (k, the (map_of entry k)))
       (rev (remdups (rev (filter (\<lambda>k. map_of entry k \<noteq> None) field))))"

definition fieldHandler :: "string \<Rightarrow> search_response \<Rightarrow> string list \<Rightarrow> json" where
  "fieldHandler table json_results field =
     (let json_array = (case map_of (sr_tables json_results) table of
                          None \<Rightarrow> []
                        | Some entries \<Rightarrow> entries);
          filtered_results = filter (\<lambda>field_obj. field_obj \<noteq> [])
                               (map (project_entry field) json_array) in
      JObj ((if filtered_results \<noteq> [] then [(table, JArr (map JObj filtered_results))] else []) @
            (case sr_nextPageToken json_results of
               None \<Rightarrow> []
             | Some tok \<Rightarrow> if tok \<noteq> [] then [(''nextPageToken'', JStr tok)] else [])))"

text \<open>
  The key under which \<^verbatim>\<open>aggregationHandler\<close> counts a value: a list is sorted and
  joined with commas, which raises a \<^verbatim>\<open>TypeError\<close> unless all its elements are strings;
  a dictionary cannot be a key; any other value is its own key.
\<close>

fun str_items :: "json list \<Rightarrow> string list option" where
  "str_items [] = Some []"
| "str_items (JStr s # xs) = map_option ((#) s) (str_items xs)"
| "str_items (x # xs) = None"

fun join_comma :: "string list \<Rightarrow> string" where
  "join_comma [] = []"
| "join_comma [s] = s"
| "join_comma (s # t # ts) = s @ '','' @ join_comma (t # ts)"

fun bucket_key :: "json \<Rightarrow> error + json" where
  "bucket_key (JArr xs) =
     (case str_items xs of
        None \<Rightarrow> Inl TypeError
      | Some ss \<Rightarrow> Inr (JStr (join_comma (sort ss))))"
| "bucket_key (JObj kvs) = Inl TypeError"
| "bucket_key v = Inr v"

text \<open>
  The keys of a Python dictionary: two values are the same key when they are equal and
  have the same hash. \<^verbatim>\<open>True\<close> is the number 1 and \<^verbatim>\<open>False\<close> the number 0 (\<^verbatim>\<open>bool\<close> is a
  subclass of \<^verbatim>\<open>int\<close>); a string, \<^verbatim>\<open>None\<close> and a number are the same key only as the same
  value. The numbers of the rows are integers here.
\<close>

fun key_number :: "json \<Rightarrow> int option" where
  "key_number (JNum n) = Some n"
| "key_number (JBool b) = Some (if b then 1 else 0)"
| "key_number v = None"

definition same_key :: "json \<Rightarrow> json \<Rightarrow> bool" where
  "same_key v w \<longleftrightarrow> (case key_number v of Some a \<Rightarrow> key_number w = Some a | None \<Rightarrow> v = w)"

text \<open>
  \<^verbatim>\<open>field_value_counts\<close>: for a field the counts of its keys, both in the order in which
  they were met first. A key that is in the dictionary already stays as it was written
  first, and its count goes up.
\<close>

type_synonym counts = "(string \<times> (json \<times> nat) list) list"

fun bump_key :: "json \<Rightarrow> (json \<times> nat) list \<Rightarrow> (json \<times> nat) list" where
  "bump_key v [] = [(v, 1)]"
| "bump_key v ((w, n) # rest) =
     (if same_key w v then (w, n + 1) # rest else (w, n) # bump_key v rest)"

fun bump :: "string \<Rightarrow> json \<Rightarrow> counts \<Rightarrow> counts" where
  "bump k v [] = [(k, [(v, 1)])]"
| "bump k v ((k', vs) # rest) =
     (if k' = k then (k', bump_key v vs) # rest else (k', vs) # bump k v rest)"

fun count_items :: "string list \<Rightarrow> entry \<Rightarrow> counts \<Rightarrow> error + counts" where
  "count_items field [] field_value_counts = Inr field_value_counts"
| "count_items field ((k, v) # items) field_value_counts =
     (if k \<in> set field then
        (case bucket_key v of
           Inl e \<Rightarrow> Inl e
         | Inr key \<Rightarrow> count_items field items (bump k key field_value_counts))
      else count_items field items field_value_counts)"

fun count_entries :: "string list \<Rightarrow> entry list \<Rightarrow> counts \<Rightarrow> error + counts" where
  "count_entries field [] field_value_counts = Inr field_value_counts"
| "count_entries field (entry # entries) field_value_counts =
     (case count_items field entry field_value_counts of
        Inl e \<Rightarrow> Inl e
      | Inr c \<Rightarrow> count_entries field entries c)"

text \<open>
  The counts as JSON. \<^verbatim>\<open>json.dumps\<close> writes a key that is not a string as its text.
\<close>

fun key_text :: "json \<Rightarrow> string" where
  "key_text (JStr s) = s"
| "key_text (JNum n) = str_int n"
| "key_text (JBool b) = (if b then ''true'' else ''false'')"
| "key_text v = ''null''"

definition counts_json :: "counts \<Rightarrow> json" where
  "counts_json c =
     JObj (map (\<lambda>(k, vs). (k, JObj (map (\<lambda>(v, n). (key_text v, JNum (int n))) vs))) c)"

text \<open>
  \<^verbatim>\<open>countHelper\<close>. With an epsilon set, the counts would go through \<^verbatim>\<open>DP.DP\<close>, a name
  that the module \<^verbatim>\<open>backend\<close> never imports: a \<^verbatim>\<open>NameError\<close>. \<open>dpEpsilon\<close> tells
  whether \<^verbatim>\<open>self._dpEpsilon\<close> is set (it is not, unless \<^verbatim>\<open>setDpEpsilon\<close> is called).
\<close>

definition countHelper :: "bool \<Rightarrow> string \<Rightarrow> counts \<Rightarrow> error + (string \<times> json) list" where
  "countHelper dpEpsilon table fv_counts =
     (if fv_counts \<noteq> [] then
        (if dpEpsilon then Inl NameError
         else Inr [(table, JArr [counts_json fv_counts])])
      else Inr [(table, JArr [])])"

definition table_alias :: "string \<Rightarrow> string" where
  "table_alias table = (if table = ''variantsByGene'' then ''variants'' else table)"

definition aggregationHandler ::
  "bool \<Rightarrow> string \<Rightarrow> search_response \<Rightarrow> string list \<Rightarrow> error + json" where
  "aggregationHandler dpEpsilon table json_results field =
     (case (case map_of (sr_tables json_results) (table_alias table) of
              None \<Rightarrow> Inr []
            | Some entries \<Rightarrow> count_entries field entries []) of
        Inl e \<Rightarrow> Inl e
      | Inr field_value_counts \<Rightarrow>
          (case countHelper dpEpsilon (table_alias table) field_value_counts of
             Inl e \<Rightarrow> Inl e
           | Inr agg_results \<Rightarrow>
               Inr (JObj (agg_results @
                          (case sr_nextPageToken json_results of
                             None \<Rightarrow> []
                           | Some tok \<Rightarrow> [(''nextPageToken'', JStr tok)])))))"

text \<open>
  The keys of \<^verbatim>\<open>self.endpointMapper\<close>; the search methods themselves are the parameter
  \<open>endpoints\<close> of \<^verbatim>\<open>resultsHandler\<close>.
\<close>

definition endpointMapper_keys :: "string list" where
  "endpointMapper_keys =
     [''patients'', ''enrollments'', ''consents'', ''diagnoses'', ''samples'', ''treatments'',
      ''outcomes'', ''complications'', ''tumourboards'', ''slides'', ''studies'', ''labtests'',
      ''surgeries'', ''chemotherapies'', ''immunotherapies'', ''radiotherapies'',
      ''celltransplants'']"

text \<open>
  \<^verbatim>\<open>results[0]\<close>: the table and the fields, each absent (or \<^verbatim>\<open>null\<close>) or given.
\<close>

record results_spec =
  res_table :: "string option"
  res_fields :: "string list option"

definition has_fields :: "string list option \<Rightarrow> bool" where
  "has_fields field = (case field of None \<Rightarrow> False | Some fs \<Rightarrow> fs \<noteq> [])"

definition join_request :: "string \<Rightarrow> string list \<Rightarrow> string option \<Rightarrow> request" where
  "join_request dataset_id patient_list page_token =
     \<lparr>rq_dataset_id = dataset_id,
      rq_filters = [\<lparr>r_field = Some ''patientId'', r_operator = Some ''in'', r_value = None,
                     r_values = Some (map PStr patient_list)\<rparr>],
      rq_page_token = (case page_token of None \<Rightarrow> [] | Some tok \<Rightarrow> tok),
      rq_page_size = 0\<rparr>"

text \<open>
  \<^verbatim>\<open>resultsHandler\<close>. The class has no method \<^verbatim>\<open>variantsResultsHandler\<close>, so the branch of
  the variant tables would end in an \<^verbatim>\<open>AttributeError\<close>.
\<close>

definition resultsHandler ::
  "bool \<Rightarrow> (string \<Rightarrow> request \<Rightarrow> error + search_response) \<Rightarrow> results_spec list \<Rightarrow> string list
     \<Rightarrow> string \<Rightarrow> string option \<Rightarrow> bool \<Rightarrow> error + json" where
  "resultsHandler dpEpsilon endpoints results patient_list dataset_id page_token is_count =
     (case results of
        [] \<Rightarrow> Inl IndexError
      | first # others \<Rightarrow>
          if is_count \<and> \<not> has_fields (res_fields first) then
            Inl (MissingFieldNameException ''Fields list required for count query'')
          else
            (case res_table first of
               None \<Rightarrow> Inl (MissingFieldNameException ''table'')
             | Some table \<Rightarrow>
                 if table \<notin> set endpointMapper_keys then
                   Inl (MissingFieldNameException ''Invalid results table specified'')
                 else if patient_list = [] then Inr (JObj [(table_alias table, JArr [])])
                 else if table = ''variantsByGene'' \<or> table = ''variants'' then
                   Inl AttributeError
                 else
                   (case endpoints table (join_request dataset_id patient_list page_token) of
                      Inl e \<Rightarrow> Inl e
                    | Inr found \<Rightarrow>
                        (case (if is_count then
                                 aggregationHandler dpEpsilon (table_alias table) found
                                   (the (res_fields first))
                               else if has_fields (res_fields first) then
                                 Inr (fieldHandler (table_alias table) found (the (res_fields first)))
                               else Inr (response_json found)) of
                           Inl e \<Rightarrow> Inl e
                         | Inr out \<Rightarrow>
                             Inr (if out = JObj [] then JObj [(table_alias table, JArr [])]
                                  else out)))))"

section \<open>Compound identifiers\<close>

subsection \<open>Strings, bytes and their encodings\<close>

text \<open>
  A Python string is the list of its code points, a byte string the list of its bytes;
  \<open>py\<close> writes a string of the first 256 code points from its characters. The strings
  of the sections above only stand for themselves and are kept as they are.
\<close>

type_synonym pystr = "nat list"

type_synonym pybytes = "nat list"

definition py :: "string \<Rightarrow> pystr" where
  "py s = map of_char s"

text \<open>
  \<^verbatim>\<open>str.encode('utf-8')\<close>: one to four bytes for a code point; a surrogate (and a number
  that is no code point) cannot be encoded.
\<close>

definition utf8_char :: "nat \<Rightarrow> pybytes option" where
  "utf8_char cp =
     (if cp < 128 then Some [cp]
      else if cp < 2048 then Some [192 + cp div 64, 128 + cp mod 64]
      else if 55296 \<le> cp \<and> cp \<le> 57343 then None
      else if cp < 65536 then
        Some [224 + cp div 4096, 128 + (cp div 64) mod 64, 128 + cp mod 64]
      else if cp < 1114112 then
        Some [240 + cp div 262144, 128 + (cp div 4096) mod 64, 128 + (cp div 64) mod 64,
              128 + cp mod 64]
      else None)"

fun utf8_encode :: "pystr \<Rightarrow> error + pybytes" where
  "utf8_encode [] = Inr []"
| "utf8_encode (cp # cps) =
     (case utf8_char cp of
        None \<Rightarrow> Inl UnicodeEncodeError
      | Some bs \<Rightarrow>
          (case utf8_encode cps of
             Inl e \<Rightarrow> Inl e
           | Inr rest \<Rightarrow> Inr (bs @ rest)))"

text \<open>
  \<^verbatim>\<open>bytes.decode('utf-8')\<close>: the inverse, which refuses bytes that start no sequence,
  sequences cut short, encodings longer than needed, surrogates and numbers beyond
  the last code point.
\<close>

definition continuation :: "nat \<Rightarrow> bool" where
  "continuation b \<longleftrightarrow> 128 \<le> b \<and> b < 192"

fun utf8_decode :: "pybytes \<Rightarrow> error + pystr" where
  "utf8_decode [] = Inr []"
| "utf8_decode (b0 # bs) =
     (if b0 < 128 then
        (case utf8_decode bs of Inl e \<Rightarrow> Inl e | Inr cps \<Rightarrow> Inr (b0 # cps))
      else if 194 \<le> b0 \<and> b0 < 224 then
        (case bs of
           b1 # r1 \<Rightarrow>
             if continuation b1 then
               (case utf8_decode r1 of
                  Inl e \<Rightarrow> Inl e
                | Inr cps \<Rightarrow> Inr (((b0 - 192) * 64 + (b1 - 128)) # cps))
             else Inl UnicodeDecodeError
         | _ \<Rightarrow> Inl UnicodeDecodeError)
      else if 224 \<le> b0 \<and> b0 < 240 then
        (case bs of
           b1 # b2 # r2 \<Rightarrow>
             (let cp = (b0 - 224) * 4096 + (b1 - 128) * 64 + (b2 - 128) in
              if continuation b1 \<and> continuation b2 \<and> 2048 \<le> cp \<and>
                 \<not> (55296 \<le> cp \<and> cp \<le> 57343) then
                (case utf8_decode r2 of
                   Inl e \<Rightarrow> Inl e
                 | Inr cps \<Rightarrow> Inr (cp # cps))
              else Inl UnicodeDecodeError)
         | _ \<Rightarrow> Inl UnicodeDecodeError)
      else if 240 \<le> b0 \<and> b0 < 245 then
        (case bs of
           b1 # b2 # b3 # r3 \<Rightarrow>
             (let cp = (b0 - 240) * 262144 + (b1 - 128) * 4096 + (b2 - 128) * 64 + (b3 - 128) in
              if continuation b1 \<and> continuation b2 \<and> continuation b3 \<and> 65536 \<le> cp \<and>
                 cp < 1114112 then
                (case utf8_decode r3 of
                   Inl e \<Rightarrow> Inl e
                 | Inr cps \<Rightarrow> Inr (cp # cps))
              else Inl UnicodeDecodeError)
         | _ \<Rightarrow> Inl UnicodeDecodeError)
      else Inl UnicodeDecodeError)"

text \<open>
  \<^verbatim>\<open>base64.urlsafe_b64encode\<close>: three bytes give four characters of the alphabet (the
  capital letters from 65, the small letters from 97, the digits from 48, then \<^verbatim>\<open>-\<close> and
  \<^verbatim>\<open>_\<close>), and the last one or two bytes give two or three characters and the padding
  \<^verbatim>\<open>=\<close>.
\<close>

definition b64_char :: "nat \<Rightarrow> nat" where
  "b64_char v =
     (if v < 26 then 65 + v
      else if v < 52 then 71 + v
      else if v < 62 then v - 4
      else if v = 62 then 45
      else 95)"

definition pad_char :: nat where
  "pad_char = 61"

fun urlsafe_b64encode :: "pybytes \<Rightarrow> pybytes" where
  "urlsafe_b64encode [] = []"
| "urlsafe_b64encode [a] = [b64_char (a div 4), b64_char ((a mod 4) * 16), pad_char, pad_char]"
| "urlsafe_b64encode [a, b] =
     [b64_char (a div 4), b64_char ((a mod 4) * 16 + b div 16), b64_char ((b mod 16) * 4),
      pad_char]"
| "urlsafe_b64encode (a # b # c # rest) =
     [b64_char (a div 4), b64_char ((a mod 4) * 16 + b div 16),
      b64_char ((b mod 16) * 4 + c div 64), b64_char (c mod 64)] @ urlsafe_b64encode rest"

text \<open>
  \<^verbatim>\<open>base64.urlsafe_b64decode\<close> of a string. A string with a character outside ASCII is
  refused with a \<^verbatim>\<open>ValueError\<close>. The decoder (\<^verbatim>\<open>binascii.a2b_base64\<close>, not strict) accepts
  both alphabets, skips every other character, skips a padding character that comes
  too early, and stops at the padding that completes a group of four; it raises
  \<^verbatim>\<open>binascii.Error\<close> when the input ends inside a group. \<open>quad_pos\<close> counts the
  characters of the group, \<open>leftchar\<close> holds the bits not yet written.
\<close>

definition b64_value :: "nat \<Rightarrow> nat option" where
  "b64_value c =
     (if 65 \<le> c \<and> c \<le> 90 then Some (c - 65)
      else if 97 \<le> c \<and> c \<le> 122 then Some (c - 71)
      else if 48 \<le> c \<and> c \<le> 57 then Some (c + 4)
      else if c = 43 \<or> c = 45 then Some 62
      else if c = 47 \<or> c = 95 then Some 63
      else None)"

fun next_is_pad :: "pybytes \<Rightarrow> bool" where
  "next_is_pad [] = False"
| "next_is_pad (c # cs) =
     (if c = pad_char then True
      else if b64_value c \<noteq> None then False
      else next_is_pad cs)"

definition emit :: "nat \<Rightarrow> error + pybytes \<Rightarrow> error + pybytes" where
  "emit b r = (case r of Inl e \<Rightarrow> Inl e | Inr bs \<Rightarrow> Inr (b # bs))"

fun a2b_base64 :: "nat \<Rightarrow> nat \<Rightarrow> pybytes \<Rightarrow> error + pybytes" where
  "a2b_base64 quad_pos leftchar [] = (if quad_pos = 0 then Inr [] else Inl BinasciiError)"
| "a2b_base64 quad_pos leftchar (c # cs) =
     (if c = pad_char then
        (if quad_pos = 3 \<or> (quad_pos = 2 \<and> next_is_pad cs) then Inr []
         else a2b_base64 quad_pos leftchar cs)
      else
        (case b64_value c of
           None \<Rightarrow> a2b_base64 quad_pos leftchar cs
         | Some v \<Rightarrow>
             if quad_pos = 0 then a2b_base64 1 v cs
             else if quad_pos = 1 then
               emit (leftchar * 4 + v div 16) (a2b_base64 2 (v mod 16) cs)
             else if quad_pos = 2 then
               emit (leftchar * 16 + v div 4) (a2b_base64 3 (v mod 4) cs)
             else emit (leftchar * 64 + v) (a2b_base64 0 0 cs)))"

definition urlsafe_b64decode :: "pystr \<Rightarrow> error + pybytes" where
  "urlsafe_b64decode s =
     (if list_all (\<lambda>cp. cp < 128) s then a2b_base64 0 0 s else Inl ValueError)"

subsection \<open>Reading JSON\<close>

text \<open>
  The values of \<^verbatim>\<open>json.loads\<close> on a string of code points. A number is kept as it is
  written (\<^verbatim>\<open>NaN\<close>, \<^verbatim>\<open>Infinity\<close> and \<^verbatim>\<open>-Infinity\<close> are numbers for Python); the keys of an
  object are distinct and in the order in which they came first.
\<close>

datatype jvalue =
    VNull
  | VBool bool
  | VNum pystr
  | VStr pystr
  | VArr "jvalue list"
  | VObj "(pystr \<times> jvalue) list"

datatype token = TOpenArr | TCloseArr | TOpenObj | TCloseObj | TComma | TColon | TScalar jvalue

text \<open>
  The scanner reads one character at a time. Inside a string it collects pieces: a
  character written as it is or by a short escape, or a code unit written \<^verbatim>\<open>\uXXXX\<close>;
  two such units next to each other, a high and a low surrogate, are one code point.
\<close>

datatype piece = Lit nat | Esc nat

datatype numstate = NMinus | NZero | NInt | NDot | NFrac | NExp | NExpSign | NExpDigits

datatype mode =
    Between
  | InStr "piece list"
  | InEsc "piece list"
  | InHex "piece list" "nat list"
  | InNum numstate pystr
  | InWord pystr jvalue

fun piece_val :: "piece \<Rightarrow> nat" where
  "piece_val (Lit c) = c"
| "piece_val (Esc c) = c"

fun join_pairs :: "piece list \<Rightarrow> pystr" where
  "join_pairs (Esc hi # Esc lo # rest) =
     (if 55296 \<le> hi \<and> hi \<le> 56319 \<and> 56320 \<le> lo \<and> lo \<le> 57343 then
        (65536 + (hi - 55296) * 1024 + (lo - 56320)) # join_pairs rest
      else hi # join_pairs (Esc lo # rest))"
| "join_pairs (p # rest) = piece_val p # join_pairs rest"
| "join_pairs [] = []"

definition is_digit :: "nat \<Rightarrow> bool" where
  "is_digit c \<longleftrightarrow> 48 \<le> c \<and> c \<le> 57"

definition hex_value :: "nat \<Rightarrow> nat option" where
  "hex_value c =
     (if 48 \<le> c \<and> c \<le> 57 then Some (c - 48)
      else if 65 \<le> c \<and> c \<le> 70 then Some (c - 55)
      else if 97 \<le> c \<and> c \<le> 102 then Some (c - 87)
      else None)"

definition escape_char :: "nat \<Rightarrow> nat option" where
  "escape_char c =
     map_of [(34, 34), (92, 92), (47, 47), (98, 8), (102, 12), (110, 10), (114, 13), (116, 9)] c"

text \<open>A character outside any token: white space, punctuation, or the start of a token.\<close>

definition token_start :: "nat \<Rightarrow> (token list \<times> mode) option" where
  "token_start c =
     (if c = 32 \<or> c = 9 \<or> c = 10 \<or> c = 13 then Some ([], Between)
      else if c = 91 then Some ([TOpenArr], Between)
      else if c = 93 then Some ([TCloseArr], Between)
      else if c = 123 then Some ([TOpenObj], Between)
      else if c = 125 then Some ([TCloseObj], Between)
      else if c = 44 then Some ([TComma], Between)
      else if c = 58 then Some ([TColon], Between)
      else if c = 34 then Some ([], InStr [])
      else if c = 45 then Some ([], InNum NMinus [c])
      else if c = 48 then Some ([], InNum NZero [c])
      else if 49 \<le> c \<and> c \<le> 57 then Some ([], InNum NInt [c])
      else if c = 110 then Some ([], InWord (py ''ull'') VNull)
      else if c = 116 then Some ([], InWord (py ''rue'') (VBool True))
      else if c = 102 then Some ([], InWord (py ''alse'') (VBool False))
      else if c = 78 then Some ([], InWord (py ''aN'') (VNum (py ''NaN'')))
      else if c = 73 then Some ([], InWord (py ''nfinity'') (VNum (py ''Infinity'')))
      else None)"

text \<open>
  A number is \<^verbatim>\<open>-?(0|[1-9][0-9]*)(\.[0-9]+)?([eE][-+]?[0-9]+)?\<close>. \<open>num_next\<close> is the state
  after one more character of it, \<open>None\<close> when the character is not part of the number;
  then the number is complete if the state is accepting.
\<close>

definition num_next :: "numstate \<Rightarrow> nat \<Rightarrow> numstate option" where
  "num_next st c =
     (case st of
        NMinus \<Rightarrow> (if c = 48 then Some NZero
                   else if 49 \<le> c \<and> c \<le> 57 then Some NInt else None)
      | NZero \<Rightarrow> (if c = 46 then Some NDot
                  else if c = 101 \<or> c = 69 then Some NExp else None)
      | NInt \<Rightarrow> (if is_digit c then Some NInt
                 else if c = 46 then Some NDot
                 else if c = 101 \<or> c = 69 then Some NExp else None)
      | NDot \<Rightarrow> (if is_digit c then Some NFrac else None)
      | NFrac \<Rightarrow> (if is_digit c then Some NFrac
                  else if c = 101 \<or> c = 69 then Some NExp else None)
      | NExp \<Rightarrow> (if c = 43 \<or> c = 45 then Some NExpSign
                 else if is_digit c then Some NExpDigits else None)
      | NExpSign \<Rightarrow> (if is_digit c then Some NExpDigits else None)
      | NExpDigits \<Rightarrow> (if is_digit c then Some NExpDigits else None))"

definition accepting :: "numstate \<Rightarrow> bool" where
  "accepting st \<longleftrightarrow> st = NZero \<or> st = NInt \<or> st = NFrac \<or> st = NExpDigits"

fun scan_step :: "mode \<Rightarrow> nat \<Rightarrow> (token list \<times> mode) option" where
  "scan_step Between c = token_start c"
| "scan_step (InStr ps) c =
     (if c = 34 then Some ([TScalar (VStr (join_pairs (rev ps)))], Between)
      else if c = 92 then Some ([], InEsc ps)
      else if c < 32 then None
      else Some ([], InStr (Lit c # ps)))"
| "scan_step (InEsc ps) c =
     (if c = 117 then Some ([], InHex ps [])
      else (case escape_char c of
              None \<Rightarrow> None
            | Some e \<Rightarrow> Some ([], InStr (Lit e # ps))))"
| "scan_step (InHex ps ds) c =
     (case hex_value c of
        None \<Rightarrow> None
      | Some d \<Rightarrow>
          (case ds of
             [d1, d2, d3] \<Rightarrow> Some ([], InStr (Esc (((d1 * 16 + d2) * 16 + d3) * 16 + d) # ps))
           | _ \<Rightarrow> Some ([], InHex ps (ds @ [d]))))"
| "scan_step (InNum st acc) c =
     (case num_next st c of
        Some st' \<Rightarrow> Some ([], InNum st' (c # acc))
      | None \<Rightarrow>
          if st = NMinus \<and> c = 73 then
            Some ([], InWord (py ''nfinity'') (VNum (py ''-Infinity'')))
          else if accepting st then
            (case token_start c of
               None \<Rightarrow> None
             | Some (toks, m) \<Rightarrow> Some (TScalar (VNum (rev acc)) # toks, m))
          else None)"
| "scan_step (InWord [] v) c = None"
| "scan_step (InWord [w] v) c = (if c = w then Some ([TScalar v], Between) else None)"
| "scan_step (InWord (w # ws) v) c = (if c = w then Some ([], InWord ws v) else None)"

fun scan_finish :: "mode \<Rightarrow> token list option" where
  "scan_finish Between = Some []"
| "scan_finish (InNum st acc) = (if accepting st then Some [TScalar (VNum (rev acc))] else None)"
| "scan_finish m = None"

fun scanner :: "mode \<Rightarrow> pystr \<Rightarrow> token list option" where
  "scanner m [] = scan_finish m"
| "scanner m (c # cs) =
     (case scan_step m c of
        None \<Rightarrow> None
      | Some (toks, m') \<Rightarrow>
          (case scanner m' cs of
             None \<Rightarrow> None
           | Some later \<Rightarrow> Some (toks @ later)))"

text \<open>
  The parser keeps the arrays and objects that are still open, innermost first, and
  what may come next. \<^verbatim>\<open>dict\<close> keeps the place of a key that comes again and takes its
  last value. The depth of the nesting is not bounded here, while Python gives up
  with a \<^verbatim>\<open>RecursionError\<close> beyond its recursion limit.
\<close>

datatype frame =
    FArr "jvalue list"
  | FObj "(pystr \<times> jvalue) list"
  | FKey "(pystr \<times> jvalue) list" pystr

datatype expect =
    EValue | EValueOrClose | EKeyOrClose | EKey | EColon | ECommaOrClose | EDone jvalue

fun dict_set :: "('k \<times> 'v) list \<Rightarrow> 'k \<Rightarrow> 'v \<Rightarrow> ('k \<times> 'v) list" where
  "dict_set [] k v = [(k, v)]"
| "dict_set ((k', v') # kvs) k v =
     (if k' = k then (k', v) # kvs else (k', v') # dict_set kvs k v)"

fun deliver :: "jvalue \<Rightarrow> frame list \<Rightarrow> (frame list \<times> expect) option" where
  "deliver v [] = Some ([], EDone v)"
| "deliver v (FArr xs # st) = Some (FArr (v # xs) # st, ECommaOrClose)"
| "deliver v (FKey kvs k # st) = Some (FObj (dict_set kvs k v) # st, ECommaOrClose)"
| "deliver v (FObj kvs # st) = None"

fun open_value :: "token \<Rightarrow> frame list \<Rightarrow> (frame list \<times> expect) option" where
  "open_value (TScalar v) st = deliver v st"
| "open_value TOpenArr st = Some (FArr [] # st, EValueOrClose)"
| "open_value TOpenObj st = Some (FObj [] # st, EKeyOrClose)"
| "open_value t st = None"

fun read_key :: "token \<Rightarrow> frame list \<Rightarrow> (frame list \<times> expect) option" where
  "read_key (TScalar (VStr k)) (FObj kvs # st) = Some (FKey kvs k # st, EColon)"
| "read_key t st = None"

fun parse_step :: "frame list \<times> expect \<Rightarrow> token \<Rightarrow> (frame list \<times> expect) option" where
  "parse_step (st, EValue) t = open_value t st"
| "parse_step (FArr xs # st, EValueOrClose) TCloseArr = deliver (VArr (rev xs)) st"
| "parse_step (st, EValueOrClose) t = open_value t st"
| "parse_step (FObj kvs # st, EKeyOrClose) TCloseObj = deliver (VObj kvs) st"
| "parse_step (st, EKeyOrClose) t = read_key t st"
| "parse_step (st, EKey) t = read_key t st"
| "parse_step (st, EColon) TColon = Some (st, EValue)"
| "parse_step (FArr xs # st, ECommaOrClose) TComma = Some (FArr xs # st, EValue)"
| "parse_step (FArr xs # st, ECommaOrClose) TCloseArr = deliver (VArr (rev xs)) st"
| "parse_step (FObj kvs # st, ECommaOrClose) TComma = Some (FObj kvs # st, EKey)"
| "parse_step (FObj kvs # st, ECommaOrClose) TCloseObj = deliver (VObj kvs) st"
| "parse_step (st, e) t = None"

fun parse_tokens :: "frame list \<times> expect \<Rightarrow> token list \<Rightarrow> jvalue option" where
  "parse_tokens (st, EDone v) [] = Some v"
| "parse_tokens s [] = None"
| "parse_tokens s (t # ts) =
     (case parse_step s t of
        None \<Rightarrow> None
      | Some s' \<Rightarrow> parse_tokens s' ts)"

text \<open>\<^verbatim>\<open>json.loads\<close>: every failure is a \<^verbatim>\<open>JSONDecodeError\<close>, a \<^verbatim>\<open>ValueError\<close>.\<close>

definition json_loads :: "pystr \<Rightarrow> error + jvalue" where
  "json_loads s =
     (case scanner Between s of
        None \<Rightarrow> Inl ValueError
      | Some toks \<Rightarrow>
          (case parse_tokens ([], EValue) toks of
             None \<Rightarrow> Inl ValueError
           | Some v \<Rightarrow> Inr v))"

subsection \<open>The class \<^verbatim>\<open>CompoundId\<close>\<close>

text \<open>
  A subclass of \<^verbatim>\<open>CompoundId\<close> is given by its class attributes; an instance holds the
  attributes that \<^verbatim>\<open>setattr\<close> has put on it, in their order, and knows its class.
\<close>

record cid_class =
  cls_fields :: "pystr list"
  cls_containerIds :: "(pystr \<times> nat) list"
  cls_differentiator :: "pystr option"

record compound_id =
  cid_class :: cid_class
  cid_attrs :: "(pystr \<times> pystr) list"

definition differentiatorFieldName :: pystr where
  "differentiatorFieldName = py ''differentiator''"

definition dquote :: nat where
  "dquote = 34"

definition backslash :: nat where
  "backslash = 92"

text \<open>
  \<^verbatim>\<open>encode\<close> puts a backslash before every double quote; \<^verbatim>\<open>decode\<close> replaces, from left
  to right, every backslash followed by a double quote by the double quote.
\<close>

fun encode :: "pystr \<Rightarrow> pystr" where
  "encode [] = []"
| "encode (c # cs) = (if c = dquote then backslash # dquote # encode cs else c # encode cs)"

fun decode :: "pystr \<Rightarrow> pystr" where
  "decode [] = []"
| "decode [c] = [c]"
| "decode (c # d # cs) =
     (if c = backslash \<and> d = dquote then dquote # decode cs else c # decode (d # cs))"

text \<open>\<^verbatim>\<open>join\<close>: the ids between double quotes, separated by commas, between brackets.\<close>

fun join_segments :: "pystr list \<Rightarrow> pystr" where
  "join_segments [] = []"
| "join_segments [s] = dquote # s @ [dquote]"
| "join_segments (s # t # ts) = dquote # s @ [dquote] @ py '','' @ join_segments (t # ts)"

definition join :: "pystr list \<Rightarrow> pystr" where
  "join splits = py ''['' @ join_segments splits @ py '']''"

text \<open>
  \<^verbatim>\<open>obfuscate\<close>: the base64 text of the UTF-8 bytes, without its padding.
  \<^verbatim>\<open>deobfuscate\<close>: the padding is put back from the length of the text (nothing, \<^verbatim>\<open>A==\<close>,
  \<^verbatim>\<open>==\<close> or \<^verbatim>\<open>=\<close>), the text is decoded, and bytes that are not UTF-8 are an object not
  found.
\<close>

definition obfuscate :: "pystr \<Rightarrow> error + pystr" where
  "obfuscate idStr =
     (case utf8_encode idStr of
        Inl e \<Rightarrow> Inl e
      | Inr bs \<Rightarrow> Inr (filter (\<lambda>b. b \<noteq> pad_char) (urlsafe_b64encode bs)))"

definition deobfuscate :: "pystr \<Rightarrow> error + pystr" where
  "deobfuscate data =
     (case urlsafe_b64decode (data @ drop ((length data + 3) mod 4) (py ''A=='')) of
        Inl e \<Rightarrow> Inl e
      | Inr decoded_data \<Rightarrow>
          (case utf8_decode decoded_data of
             Inl e \<Rightarrow> Inl ObjectWithIdNotFoundException
           | Inr s \<Rightarrow> Inr s))"

text \<open>\<^verbatim>\<open>getattr\<close> and \<^verbatim>\<open>setattr\<close> on the attributes of an instance.\<close>

definition getattr :: "(pystr \<times> pystr) list \<Rightarrow> pystr \<Rightarrow> error + pystr" where
  "getattr attrs name = (case map_of attrs name of None \<Rightarrow> Inl AttributeError | Some v \<Rightarrow> Inr v)"

fun getattrs :: "(pystr \<times> pystr) list \<Rightarrow> pystr list \<Rightarrow> error + pystr list" where
  "getattrs attrs [] = Inr []"
| "getattrs attrs (f # fs) =
     (case getattr attrs f of
        Inl e \<Rightarrow> Inl e
      | Inr v \<Rightarrow> (case getattrs attrs fs of Inl e \<Rightarrow> Inl e | Inr vs \<Rightarrow> Inr (v # vs)))"

fun index_of :: "'a \<Rightarrow> 'a list \<Rightarrow> nat option" where
  "index_of x [] = None"
| "index_of x (y # ys) = (if x = y then Some 0 else map_option Suc (index_of x ys))"

text \<open>
  The constructor: the fields of the parent are copied, the differentiator of the class
  is put among the local ids, each remaining field gets its encoded local id, the
  number of local ids is checked, and the ids of the containers are set.
\<close>

fun set_fields :: "(pystr \<times> pystr) list \<Rightarrow> pystr list \<Rightarrow> pystr list \<Rightarrow> (pystr \<times> pystr) list" where
  "set_fields attrs (field # flds) (localId # localIds) =
     set_fields (dict_set attrs field (encode localId)) flds localIds"
| "set_fields attrs flds localIds = attrs"

fun set_containers ::
  "pystr list \<Rightarrow> (pystr \<times> pystr) list \<Rightarrow> (pystr \<times> nat) list \<Rightarrow> error + (pystr \<times> pystr) list" where
  "set_containers flds attrs [] = Inr attrs"
| "set_containers flds attrs ((idFieldName, prefix_len) # rest) =
     (case getattrs attrs (take (prefix_len + 1) flds) of
        Inl e \<Rightarrow> Inl e
      | Inr vals \<Rightarrow>
          (case obfuscate (join vals) of
             Inl e \<Rightarrow> Inl e
           | Inr obfuscated \<Rightarrow>
               set_containers flds (dict_set attrs idFieldName obfuscated) rest))"

definition CompoundId :: "cid_class \<Rightarrow> compound_id option \<Rightarrow> pystr list \<Rightarrow> error + compound_id" where
  "CompoundId cls parentCompoundId localIds =
     (case (case parentCompoundId of
              None \<Rightarrow> Inr []
            | Some parent \<Rightarrow>
                (case getattrs (cid_attrs parent) (cls_fields (cid_class parent)) of
                   Inl e \<Rightarrow> Inl e
                 | Inr vals \<Rightarrow>
                     Inr (fold (\<lambda>(f, v) attrs. dict_set attrs f v)
                            (zip (cls_fields (cid_class parent)) vals) []))) of
        Inl e \<Rightarrow> Inl e
      | Inr inherited \<Rightarrow>
          (let index = (case parentCompoundId of
                          None \<Rightarrow> 0
                        | Some parent \<Rightarrow> length (cls_fields (cid_class parent)));
               own = drop index (cls_fields cls);
               ids = (case cls_differentiator cls of
                        None \<Rightarrow> localIds
                      | Some differentiator \<Rightarrow>
                          (case index_of differentiatorFieldName own of
                             None \<Rightarrow> localIds
                           | Some differentiatorIndex \<Rightarrow>
                               take differentiatorIndex localIds @ [differentiator] @
                               drop differentiatorIndex localIds));
               attrs = set_fields inherited own ids in
           if int (length ids) \<noteq> int (length (cls_fields cls)) - int index then Inl ValueError
           else
             (case set_containers (cls_fields cls) attrs (cls_containerIds cls) of
                Inl e \<Rightarrow> Inl e
              | Inr attrs' \<Rightarrow> Inr \<lparr>cid_class = cls, cid_attrs = attrs'\<rparr>)))"

text \<open>\<^verbatim>\<open>__str__\<close>.\<close>

definition str_of :: "compound_id \<Rightarrow> error + pystr" where
  "str_of self =
     (case getattrs (cid_attrs self) (cls_fields (cid_class self)) of
        Inl e \<Rightarrow> Inl e
      | Inr vals \<Rightarrow> obfuscate (join vals))"

text \<open>
  \<^verbatim>\<open>[cls.decode(split) for split in encodedSplits]\<close> on what \<^verbatim>\<open>json.loads\<close> has returned:
  a list gives its elements, an object its keys and a string its characters; an
  element that is no string has no method \<^verbatim>\<open>replace\<close>; a number, a truth value and
  \<^verbatim>\<open>null\<close> cannot be iterated.
\<close>

fun decode_all :: "jvalue list \<Rightarrow> error + pystr list" where
  "decode_all [] = Inr []"
| "decode_all (VStr s # xs) =
     (case decode_all xs of Inl e \<Rightarrow> Inl e | Inr ss \<Rightarrow> Inr (decode s # ss))"
| "decode_all (x # xs) = Inl AttributeError"

fun decode_splits :: "jvalue \<Rightarrow> error + pystr list" where
  "decode_splits (VArr xs) = decode_all xs"
| "decode_splits (VObj kvs) = Inr (map (\<lambda>(k, v). decode k) kvs)"
| "decode_splits (VStr s) = Inr (map (\<lambda>c. decode [c]) s)"
| "decode_splits v = Inl TypeError"

text \<open>
  \<^verbatim>\<open>parse\<close>. The first \<^verbatim>\<open>except\<close> clause catches \<^verbatim>\<open>binascii.Error\<close>, the second one
  \<^verbatim>\<open>UnicodeDecodeError\<close> and \<^verbatim>\<open>ValueError\<close> with its subclasses. The argument is a string,
  so the test of \<^verbatim>\<open>isinstance\<close> passes. \<^verbatim>\<open>cls.fields.index\<close> raises a \<^verbatim>\<open>ValueError\<close> when
  the class has a differentiator and no field for it.
\<close>

definition del_at :: "nat \<Rightarrow> 'a list \<Rightarrow> 'a list" where
  "del_at i xs = take i xs @ drop (Suc i) xs"

definition parse :: "cid_class \<Rightarrow> pystr \<Rightarrow> error + compound_id" where
  "parse cls compoundIdStr =
     (case deobfuscate compoundIdStr of
        Inl e \<Rightarrow> Inl (if e = BinasciiError then ObjectWithIdNotFoundException else e)
      | Inr deobfuscated \<Rightarrow>
          (case (case json_loads deobfuscated of
                   Inl e \<Rightarrow> Inl e
                 | Inr encodedSplits \<Rightarrow> decode_splits encodedSplits) of
             Inl e \<Rightarrow>
               Inl (if e \<in> {ValueError, UnicodeDecodeError, UnicodeEncodeError, BinasciiError}
                    then ObjectWithIdNotFoundException else e)
           | Inr splits \<Rightarrow>
               (case cls_differentiator cls of
                  None \<Rightarrow>
                    if length splits \<noteq> length (cls_fields cls)
                    then Inl ObjectWithIdNotFoundException
                    else CompoundId cls None splits
                | Some d \<Rightarrow>
                    (case index_of differentiatorFieldName (cls_fields cls) of
                       None \<Rightarrow> Inl ValueError
                     | Some differentiatorIndex \<Rightarrow>
                         if differentiatorIndex < length splits then
                           (if int (length (del_at differentiatorIndex splits)) \<noteq>
                               int (length (cls_fields cls)) - 1
                            then Inl ObjectWithIdNotFoundException
                            else CompoundId cls None (del_at differentiatorIndex splits))
                         else Inl ObjectWithIdNotFoundException))))"

text \<open>Two of the subclasses: the ids of datasets and of patients.\<close>

definition DatasetCompoundId :: cid_class where
  "DatasetCompoundId =
     \<lparr>cls_fields = [py ''dataset''], cls_containerIds = [(py ''dataset_id'', 0)],
      cls_differentiator = None\<rparr>"

definition PatientCompoundId :: cid_class where
  "PatientCompoundId =
     \<lparr>cls_fields = [py ''dataset'', differentiatorFieldName, py ''patient''],
      cls_containerIds = [(py ''dataset_id'', 0), (py ''patient_id'', 3)],
      cls_differentiator = Some (py ''pat'')\<rparr>"

section \<open>Statements of the specification\<close>

text \<open>
  The specification's notion of a well-formed filter: it has a field and an operator,
  exactly one of \<^verbatim>\<open>value\<close> and \<^verbatim>\<open>values\<close>, and \<^verbatim>\<open>values\<close> exactly when the operator
  is \<^verbatim>\<open>in\<close>. Stated for the filters of a request and for the validated ones.
\<close>

definition raw_well_formed_spec :: "raw_filter \<Rightarrow> bool" where
  "raw_well_formed_spec r \<longleftrightarrow>
     r_field r \<noteq> None \<and> r_operator r \<noteq> None \<and>
     (r_value r = None) \<noteq> (r_values r = None) \<and>
     ((r_values r \<noteq> None) = (r_operator r = Some ''in''))"

definition well_formed_spec :: "filt \<Rightarrow> bool" where
  "well_formed_spec f \<longleftrightarrow>
     f_field f \<noteq> None \<and> f_operator f \<noteq> None \<and>
     (f_value f = None) \<noteq> (f_values f = None) \<and>
     ((f_values f \<noteq> None) = (f_operator f = Some ''in''))"

text \<open>
  The validated form of a well-formed filter according to the specification: the same
  filter, its list of values turned into a set.
\<close>

definition materialized_spec :: "raw_filter \<Rightarrow> filt" where
  "materialized_spec r =
     \<lparr>f_field = r_field r, f_operator = r_operator r, f_value = r_value r,
      f_values = map_option fset_of_list (r_values r)\<rparr>"

text \<open>
  When an object passes one filter, in the words of the specification: a filter with
  \<^verbatim>\<open>values\<close> passes iff the value of the field is a member; a filter with a \<^verbatim>\<open>value\<close>
  passes iff the operator it names holds between the value of the field and the
  value of the filter.
\<close>

definition member_passes_spec :: "'o mapper \<Rightarrow> 'o \<Rightarrow> string \<Rightarrow> pyval fset \<Rightarrow> bool" where
  "member_passes_spec mapper obj fld vs =
     (case mapper obj fld of Inr v \<Rightarrow> v |\<in>| vs | Inl e \<Rightarrow> False)"

definition operator_passes_spec :: "'o mapper \<Rightarrow> 'o \<Rightarrow> string \<Rightarrow> string \<Rightarrow> pyval \<Rightarrow> bool" where
  "operator_passes_spec mapper obj fld opn x =
     (case map_of ops (lower opn) of
        Some opf \<Rightarrow> (case mapper obj fld of Inr v \<Rightarrow> opf v x = Inr True | Inl e \<Rightarrow> False)
      | None \<Rightarrow> False)"

definition passes_spec :: "'o mapper \<Rightarrow> 'o \<Rightarrow> filt \<Rightarrow> bool" where
  "passes_spec mapper obj f =
     (case (f_field f, f_operator f) of
        (Some fld, Some opn) \<Rightarrow>
          (case f_values f of
             Some vs \<Rightarrow> member_passes_spec mapper obj fld vs
           | None \<Rightarrow>
               (case f_value f of
                  Some x \<Rightarrow> operator_passes_spec mapper obj fld opn x
                | None \<Rightarrow> False))
      | _ \<Rightarrow> False)"

text \<open>
  The token that goes with the object at index \<open>i\<close> of \<open>n\<close> objects, in the words of the
  specification: the decimal string of \<open>i + 1\<close>, absent when \<open>i + 1\<close> equals \<open>n\<close>.
\<close>

definition next_token_spec :: "int \<Rightarrow> int \<Rightarrow> string option" where
  "next_token_spec n i = (if i + 1 = n then None else Some (str_int (i + 1)))"

text \<open>
  Modelled from the spec: \<^verbatim>\<open>paging._parsePageToken\<close> is not part of the sources. The
  specification says that a token decodes to one or more integer cursor components,
  separated by colons in the wire form. A token with another number of components
  than expected, or with a component that is not a decimal integer, is refused.
\<close>

fun split_on :: "char \<Rightarrow> string \<Rightarrow> string list" where
  "split_on sep [] = [[]]"
| "split_on sep (c # cs) =
     (if c = sep then [] # split_on sep cs
      else (case split_on sep cs of
              w # ws \<Rightarrow> (c # w) # ws
            | [] \<Rightarrow> [[c]]))"

definition digit_val :: "char \<Rightarrow> nat option" where
  "digit_val c = map_of (zip ''0123456789'' [0, 1, 2, 3, 4, 5, 6, 7, 8, 9]) c"

fun nat_of_digits :: "nat \<Rightarrow> string \<Rightarrow> nat option" where
  "nat_of_digits acc [] = Some acc"
| "nat_of_digits acc (c # cs) =
     (case digit_val c of
        None \<Rightarrow> None
      | Some d \<Rightarrow> nat_of_digits (10 * acc + d) cs)"

definition int_of_str :: "string \<Rightarrow> int option" where
  "int_of_str s =
     (case s of
        [] \<Rightarrow> None
      | c # cs \<Rightarrow>
          if c = CHR ''-'' then
            (if cs = [] then None else map_option (\<lambda>n. - int n) (nat_of_digits 0 cs))
          else map_option int (nat_of_digits 0 s))"

fun ints_of_strs :: "string list \<Rightarrow> int list option" where
  "ints_of_strs [] = Some []"
| "ints_of_strs (w # ws) =
     (case int_of_str w of
        None \<Rightarrow> None
      | Some i \<Rightarrow> map_option ((#) i) (ints_of_strs ws))"

definition parsePageToken_spec :: token_parser where
  "parsePageToken_spec pageToken numValues =
     (let tokens = split_on CHR '':'' pageToken in
      if length tokens \<noteq> numValues then Inl ValueError
      else (case ints_of_strs tokens of
              None \<Rightarrow> Inl ValueError
            | Some vs \<Rightarrow> Inr vs))"

text \<open>The set that a logic node evaluates to, when it evaluates to one.\<close>

definition result_of :: "logic_env \<Rightarrow> json \<Rightarrow> string fset" where
  "result_of env c = (case logicHandler env c of Inr r \<Rightarrow> r | Inl e \<Rightarrow> {||})"


fun text_of_spec :: "json \<Rightarrow> string option" where
  "text_of_spec (JStr s) = Some s"
| "text_of_spec v = None"

definition composite_key_spec :: "string list \<Rightarrow> string" where
  "composite_key_spec ss =
     (case sort ss of [] \<Rightarrow> [] | s # rest \<Rightarrow> s @ concat (map (\<lambda>t. '','' @ t) rest))"

definition key_of_spec :: "json \<Rightarrow> json option" where
  "key_of_spec v =
     (case v of
        JArr xs \<Rightarrow> map_option (\<lambda>ss. JStr (composite_key_spec ss)) (those (map text_of_spec xs))
      | JObj kvs \<Rightarrow> None
      | _ \<Rightarrow> Some v)"

text \<open>
  The rows whose requested fields hold values that can be counted; the count that the
  specification asks for a field and a key: the number of items of the rows that have
  this field, requested, and a value that is counted under this key.
\<close>

definition countable_spec :: "string list \<Rightarrow> entry list \<Rightarrow> bool" where
  "countable_spec field entries \<longleftrightarrow>
     list_all (\<lambda>(k, v). k \<in> set field \<longrightarrow> key_of_spec v \<noteq> None) (concat entries)"







text \<open>
  \<^verbatim>\<open>parse(str(CompoundId(None, *values)))\<close> for a class and the values of its fields.
\<close>

definition roundtrip :: "cid_class \<Rightarrow> pystr list \<Rightarrow> error + compound_id" where
  "roundtrip cls localIds =
     (case CompoundId cls None localIds of
        Inl e \<Rightarrow> Inl e
      | Inr c \<Rightarrow> (case str_of c of Inl e \<Rightarrow> Inl e | Inr s \<Rightarrow> parse cls s))"

section \<open>Example data\<close>

text \<open>An object with the fields \<^verbatim>\<open>age\<close> and \<^verbatim>\<open>name\<close>, and some filters on them.\<close>

definition mapper0 :: "unit mapper" where
  "mapper0 obj fld =
     (if fld = ''age'' then Inr (PInt 5)
      else if fld = ''name'' then Inr (PStr ''abc'')
      else Inl BadFieldNameException)"

definition age_gt_3 :: filt where
  "age_gt_3 = \<lparr>f_field = Some ''age'', f_operator = Some ''GT'', f_value = Some (PInt 3),
                f_values = None\<rparr>"

definition name_in :: filt where
  "name_in = \<lparr>f_field = Some ''name'', f_operator = Some ''in'', f_value = None,
               f_values = Some (fset_of_list [PStr ''abc'', PStr ''x''])\<rparr>"

definition age_lt_2 :: filt where
  "age_lt_2 = \<lparr>f_field = Some ''age'', f_operator = Some ''lt'', f_value = Some (PInt 2),
                f_values = None\<rparr>"

definition no_such_field :: filt where
  "no_such_field = \<lparr>f_field = Some ''agee'', f_operator = Some ''eq'', f_value = Some (PInt 2),
                     f_values = None\<rparr>"

definition raw1 :: raw_filter where
  "raw1 = \<lparr>r_field = Some ''name'', r_operator = Some ''in'', r_value = None,
            r_values = Some [PStr ''a'', PStr ''b'', PStr ''a'']\<rparr>"

definition raw2 :: raw_filter where
  "raw2 = \<lparr>r_field = Some ''age'', r_operator = Some ''in'', r_value = Some (PInt 3),
            r_values = None\<rparr>"

definition rq0 :: request where
  "rq0 = \<lparr>rq_dataset_id = ''d'', rq_filters = [], rq_page_token = [], rq_page_size = 0\<rparr>"

definition rq1 :: request where
  "rq1 = \<lparr>rq_dataset_id = ''d'', rq_filters = [raw1], rq_page_token = [], rq_page_size = 0\<rparr>"

definition rq2 :: request where
  "rq2 = \<lparr>rq_dataset_id = ''d'', rq_filters = [raw1, raw2], rq_page_token = [],
           rq_page_size = 0\<rparr>"

definition ds0 :: "unit dataset" where
  "ds0 = \<lparr>ds_localId = ''ds'', ds_collection = [(), ()]\<rparr>"

definition repo0 :: "string \<rightharpoonup> unit dataset" where
  "repo0 = [''d'' \<mapsto> ds0]"

definition no_token :: token_parser where
  "no_token s n = Inl ValueError"

text \<open>A backend with pages of two objects, and three objects to page over.\<close>

definition backend0 :: "int backend" where
  "backend0 = \<lparr>defaultPageSize = 2, maxResponseLength = 100, serializedSize = (\<lambda>p. 1)\<rparr>"

definition fetch0 :: "int \<Rightarrow> int" where
  "fetch0 i = 10 * i"

definition conv0 :: "int \<Rightarrow> int \<Rightarrow> int" where
  "conv0 ob tier = ob + tier"

text \<open>Three components with their responses, and the nodes that refer to them.\<close>

definition row_of :: "string \<Rightarrow> response_row" where
  "row_of p = \<lparr>row_patientId = Some p, row_variantSetId = None\<rparr>"

definition env0 :: logic_env where
  "env0 =
     \<lparr>env_responses =
        [(''a'', [row_of ''p1'', row_of ''p2'', row_of ''p3'']),
         (''b'', [row_of ''p2'', row_of ''p3'']),
         (''c'', [row_of ''p3'', row_of ''p4''])],
      env_dataset_known = True,
      env_all_patient_id = Inr [''p1'', ''p2'', ''p3'', ''p4'']\<rparr>"

definition node_a :: json where
  "node_a = JObj [(''id'', JStr ''a'')]"

definition node_b :: json where
  "node_b = JObj [(''id'', JStr ''b'')]"

definition node_c :: json where
  "node_c = JObj [(''id'', JStr ''c'')]"

text \<open>
  An endpoint that answers every search with two rows, whose field \<^verbatim>\<open>f\<close> holds the same
  two strings in different orders.
\<close>

definition rows0 :: "entry list" where
  "rows0 =
     [[(''f'', JArr [JStr ''b'', JStr ''a''])],
      [(''f'', JArr [JStr ''a'', JStr ''b'']), (''g'', JNum 3)]]"

definition endpoints0 :: "string \<Rightarrow> request \<Rightarrow> error + search_response" where
  "endpoints0 table rq = Inr \<lparr>sr_tables = [(table, rows0)], sr_nextPageToken = None\<rparr>"



section \<open>The filter engine\<close>

lemmas example_defs = mapper0_def age_gt_3_def name_in_def age_lt_2_def no_such_field_def
  raw1_def raw2_def rq0_def rq1_def rq2_def ds0_def repo0_def

lemmas comparison_defs = comparisonGenerator_def filter_step_def ops_def lower_def lower_char_def

lemma filter_step_passes:
  "well_formed_spec f \<Longrightarrow> filter_step mapper obj f = Inr True \<longleftrightarrow> passes_spec mapper obj f"
  by (auto simp: well_formed_spec_def filter_step_def passes_spec_def member_passes_spec_def
        operator_passes_spec_def split: option.splits sum.splits)

lemma comparison_loop_True:
  "comparison_loop mapper obj fs = Inr True \<longleftrightarrow>
     (\<forall>f\<in>set fs. filter_step mapper obj f = Inr True)"
  by (induction fs) (auto split: sum.splits bool.splits)

lemma comparison_loop_append:
  "comparison_loop mapper obj fs1 = Inr True \<Longrightarrow>
     comparison_loop mapper obj (fs1 @ fs2) = comparison_loop mapper obj fs2"
  by (induction fs1) (auto split: sum.splits bool.splits)

lemma comparison_loop_single_False:
  "comparison_loop mapper obj [f] = Inr False \<Longrightarrow>
     comparison_loop mapper obj (f # fs2) = Inr False"
  by (auto split: sum.splits bool.splits)

lemma comparisonGenerator_Inr:
  "comparisonGenerator mapper obj fs = Inr b \<longleftrightarrow> comparison_loop mapper obj fs = Inr b"
  by (auto simp: comparisonGenerator_def split: sum.splits)

text \<open>
  C6: on a list of well-formed filters, \<^verbatim>\<open>comparisonGenerator\<close> returns \<^verbatim>\<open>True\<close> iff the
  object passes every filter of the list, where a filter with \<^verbatim>\<open>values\<close> passes iff
  the mapped value is a member and a filter with a \<^verbatim>\<open>value\<close> passes iff the named
  operator holds between the mapped value and the value of the filter. The evaluation
  stops at the first filter that fails: once the filters so far have passed and the
  next one fails, the result is \<^verbatim>\<open>False\<close> whatever filters follow.
\<close>

theorem comparisonGenerator_conjunction:
  assumes "\<forall>f\<in>set filters. well_formed_spec f"
  shows "(comparisonGenerator mapper obj filters = Inr True \<longleftrightarrow>
            (\<forall>f\<in>set filters. passes_spec mapper obj f)) \<and>
         (comparisonGenerator mapper obj filters = Inr True \<longrightarrow>
          comparisonGenerator mapper obj [g] = Inr False \<longrightarrow>
            comparisonGenerator mapper obj (filters @ g # rest) = Inr False)"
proof
  show "comparisonGenerator mapper obj filters = Inr True \<longleftrightarrow>
          (\<forall>f\<in>set filters. passes_spec mapper obj f)"
    using assms by (simp add: comparisonGenerator_Inr comparison_loop_True filter_step_passes)
next
  show "comparisonGenerator mapper obj filters = Inr True \<longrightarrow>
          comparisonGenerator mapper obj [g] = Inr False \<longrightarrow>
            comparisonGenerator mapper obj (filters @ g # rest) = Inr False"
    unfolding comparisonGenerator_Inr
    by (simp add: comparison_loop_append comparison_loop_single_False
          del: comparison_loop.simps)
qed

theorem comparisonGenerator_conjunction_witness:
  "well_formed_spec age_gt_3 \<and> well_formed_spec name_in \<and>
   comparisonGenerator mapper0 () [age_gt_3, name_in] = Inr True \<and>
   passes_spec mapper0 () age_gt_3 \<and> passes_spec mapper0 () name_in \<and>
   comparisonGenerator mapper0 () ([age_gt_3, name_in] @ age_lt_2 # [no_such_field]) = Inr False \<and>
   comparisonGenerator mapper0 () [no_such_field] = Inl BadFieldNameException"
proof -
  have wf: "\<forall>f\<in>set [age_gt_3, name_in]. well_formed_spec f"
    by (simp add: well_formed_spec_def example_defs)
  have t: "comparisonGenerator mapper0 () [age_gt_3, name_in] = Inr True"
    by (simp add: comparison_defs example_defs)
  have f: "comparisonGenerator mapper0 () [age_lt_2] = Inr False"
    by (simp add: comparison_defs example_defs)
  have e: "comparisonGenerator mapper0 () [no_such_field] = Inl BadFieldNameException"
    by (simp add: comparison_defs example_defs)
  from comparisonGenerator_conjunction[OF wf, of mapper0 "()" age_lt_2 "[no_such_field]"] wf t f e
  show ?thesis by simp
qed

lemma validate_filter_cases:
  "(case validate_filter r of
      Inr f \<Rightarrow> raw_well_formed_spec r \<and> f = materialized_spec r
    | Inl e \<Rightarrow> \<not> raw_well_formed_spec r \<and> (\<exists>msg. e = BadRequestException msg))"
  by (auto simp: validate_filter_def raw_well_formed_spec_def materialized_spec_def
        split: option.splits)

lemma filtersValidator_cases:
  "(case filtersValidator rs of
      Inr fs \<Rightarrow> (\<forall>r\<in>set rs. raw_well_formed_spec r) \<and> fs = map materialized_spec rs
    | Inl e \<Rightarrow> (\<exists>r\<in>set rs. \<not> raw_well_formed_spec r) \<and> (\<exists>msg. e = BadRequestException msg))"
proof (induction rs)
  case Nil
  then show ?case by simp
next
  case (Cons r rs)
  show ?case
    using Cons validate_filter_cases[of r]
    by (auto split: sum.splits)
qed

text \<open>
  C7: the validation of the filters of a request succeeds iff every filter is
  well-formed (field and operator, exactly one of \<^verbatim>\<open>value\<close> and \<^verbatim>\<open>values\<close>, \<^verbatim>\<open>values\<close> iff
  the operator is \<^verbatim>\<open>in\<close>), and then every list of values has become a set. Otherwise
  it raises a bad-request error, and a search generator that has found the dataset and
  its tier raises this error whatever the collection and the objects' mappers are, so
  before any object is scanned.
\<close>

theorem filtersValidator_accepts_iff:
  "(case filtersValidator (rq_filters rq) of
      Inr fs \<Rightarrow>
        (\<forall>r\<in>set (rq_filters rq). raw_well_formed_spec r) \<and>
        fs = map materialized_spec (rq_filters rq)
    | Inl e \<Rightarrow>
        (\<exists>r\<in>set (rq_filters rq). \<not> raw_well_formed_spec r) \<and>
        (\<exists>msg. e = BadRequestException msg) \<and>
        (repo (rq_dataset_id rq) = Some d \<longrightarrow> access_map (ds_localId d) = Some tier \<longrightarrow>
           entitiesGenerator repo mapper parsePageToken conv rq access_map = Inl e))"
  using filtersValidator_cases[of "rq_filters rq"]
  by (auto simp: entitiesGenerator_def getDataset_def getUserAccessTier_def split: sum.splits)

theorem filtersValidator_accepts_iff_witness:
  "filtersValidator (rq_filters rq1) =
     Inr [\<lparr>f_field = Some ''name'', f_operator = Some ''in'', f_value = None,
           f_values = Some {|PStr ''a'', PStr ''b''|}\<rparr>] \<and>
   raw_well_formed_spec raw1 \<and> \<not> raw_well_formed_spec raw2 \<and>
   entitiesGenerator repo0 mapper0 no_token (\<lambda>ob t. ob) rq2 [''ds'' \<mapsto> 1] =
     Inl (BadRequestException ''You can only use the in operator when you supply a list of values in your filter, specify 'values' instead of 'value'.'')"
proof -
  have a: "filtersValidator (rq_filters rq1) = Inr [materialized_spec raw1]"
    using filtersValidator_accepts_iff[of rq1 repo0 ds0 Map.empty 0 mapper0 no_token "\<lambda>ob t. ob"]
    by (auto simp: rq1_def raw1_def raw_well_formed_spec_def split: sum.splits)
  have b: "filtersValidator (rq_filters rq2) =
     Inl (BadRequestException ''You can only use the in operator when you supply a list of values in your filter, specify 'values' instead of 'value'.'')"
    by (simp add: rq2_def raw1_def raw2_def validate_filter_def)
  have c: "entitiesGenerator repo0 mapper0 no_token (\<lambda>ob t. ob) rq2 [''ds'' \<mapsto> 1] =
     Inl (BadRequestException ''You can only use the in operator when you supply a list of values in your filter, specify 'values' instead of 'value'.'')"
    using filtersValidator_accepts_iff[of rq2 repo0 ds0 "[''ds'' \<mapsto> 1]" 1 mapper0 no_token
        "\<lambda>ob t. ob"] b
    by (simp add: rq2_def repo0_def ds0_def)
  show ?thesis
    using a c by (auto simp: materialized_spec_def raw1_def raw2_def raw_well_formed_spec_def)
qed

section \<open>The access gate\<close>

text \<open>
  C9: when the local name of the dataset is not in the access map,
  \<^verbatim>\<open>getUserAccessTier\<close> raises the not-authorized error, and so does every search
  generator, whatever the filters, the collection and the objects' mappers are, so
  before any entity is scanned; when the name is in the map, the tier it is mapped to
  is returned.
\<close>

theorem getUserAccessTier_gate:
  "(access_map (ds_localId d) = None \<longrightarrow>
      getUserAccessTier d access_map =
        Inl (NotAuthorizedException ''Not authorized to access this dataset'') \<and>
      (repo (rq_dataset_id rq) = Some d \<longrightarrow>
         entitiesGenerator repo mapper parsePageToken conv rq access_map =
           Inl (NotAuthorizedException ''Not authorized to access this dataset''))) \<and>
   (access_map (ds_localId d) = Some tier \<longrightarrow> getUserAccessTier d access_map = Inr tier)"
  by (auto simp: entitiesGenerator_def getDataset_def getUserAccessTier_def)

theorem getUserAccessTier_gate_witness:
  "getUserAccessTier ds0 [''other'' \<mapsto> 4] =
     Inl (NotAuthorizedException ''Not authorized to access this dataset'') \<and>
   entitiesGenerator repo0 mapper0 no_token (\<lambda>ob t. ob) rq2 [''other'' \<mapsto> 4] =
     Inl (NotAuthorizedException ''Not authorized to access this dataset'') \<and>
   getUserAccessTier ds0 [''ds'' \<mapsto> 4] = Inr 4"
  using getUserAccessTier_gate[of "[''other'' \<mapsto> 4]" ds0 repo0 rq2 mapper0 no_token
      "\<lambda>ob t. ob" 0]
    getUserAccessTier_gate[of "[''ds'' \<mapsto> 4]" ds0 repo0 rq2 mapper0 no_token "\<lambda>ob t. ob" 4]
  by (simp add: repo0_def rq2_def ds0_def)

section \<open>Requests without filters\<close>

lemma scan_no_filters: "scan mapper [] xs = Inr xs"
  by (induction xs) (auto simp: comparisonGenerator_def)

text \<open>
  C10: with the empty list of filters \<^verbatim>\<open>comparisonGenerator\<close> returns \<^verbatim>\<open>True\<close> for every
  object, so a search generator whose request has no filters pages over the whole
  collection of the dataset.
\<close>

theorem no_filters_match_all:
  "comparisonGenerator mapper obj [] = Inr True \<and>
   (repo (rq_dataset_id rq) = Some d \<longrightarrow> access_map (ds_localId d) = Some tier \<longrightarrow>
    rq_filters rq = [] \<longrightarrow>
      entitiesGenerator repo mapper parsePageToken conv rq access_map =
        Inr (objectListGenerator parsePageToken (rq_page_token rq) (ds_collection d) conv tier))"
  by (auto simp: entitiesGenerator_def getDataset_def getUserAccessTier_def scan_no_filters
        comparisonGenerator_def)

theorem no_filters_match_all_witness:
  "comparisonGenerator mapper0 () [] = Inr True \<and>
   entitiesGenerator repo0 mapper0 no_token (\<lambda>ob t. ob) rq0 [''ds'' \<mapsto> 4] =
     Inr (Yield ((), Some ''1'') (Yield ((), None) Done))"
proof -
  have g: "objectListGenerator no_token [] [(), ()] (\<lambda>ob t. ob) 4 =
      Yield ((), Some ''1'') (Yield ((), None) Done)"
    by (simp add: objectListGenerator_def topLevelObjectGenerator_def start_index_def
          py_index_def str_int_def digit_char_def object_loop.simps str_nat.simps)
  show ?thesis
    using no_filters_match_all[of mapper0 "()" repo0 rq0 ds0 "[''ds'' \<mapsto> 4]" 4 no_token
        "\<lambda>ob t. ob"] g
    by (simp add: repo0_def rq0_def ds0_def)
qed

section \<open>Paging\<close>

lemma object_loop_total:
  "\<forall>i. s \<le> i \<and> i < n \<longrightarrow> g i = Inr (f i) \<Longrightarrow>
   object_loop s n g c = gen_of_list (map (\<lambda>i. (c (f i), next_token_spec n i)) [s..n - 1])"
proof (induction s n g c rule: object_loop.induct)
  case (1 s n g c)
  show ?case
  proof (cases "s < n")
    case True
    have u: "[s..n - 1] = s # [s + 1..n - 1]"
      using True by (simp add: upto_rec1)
    have ih: "object_loop (s + 1) n g c =
        gen_of_list (map (\<lambda>i. (c (f i), next_token_spec n i)) [s + 1..n - 1])"
      using 1 True by auto
    have gs: "g s = Inr (f s)" using 1(2) True by simp
    show ?thesis
      apply (subst object_loop.simps)
      using True gs ih u by (auto simp: next_token_spec_def)
  next
    case False
    then show ?thesis by (subst object_loop.simps) simp
  qed
qed

lemma fill_page_list:
  "\<exists>k. k \<le> length ys \<and> (ys \<noteq> [] \<longrightarrow> 0 < k) \<and>
       fill_page full vals t (gen_of_list ys) =
         Inr \<lparr>rs_values = vals @ map fst (take k ys),
              rs_nextPageToken = (if k = 0 then t else snd (ys ! (k - 1)))\<rparr>"
proof (induction ys arbitrary: vals t)
  case Nil
  then show ?case by simp
next
  case (Cons y ys)
  obtain ob tok where y: "y = (ob, tok)" by (cases y)
  show ?case
  proof (cases "full (vals @ [ob])")
    case True
    then show ?thesis
      by (intro exI[of _ 1]) (simp add: y)
  next
    case False
    from Cons.IH[of "vals @ [ob]" tok] obtain k where
      k: "k \<le> length ys" "ys \<noteq> [] \<longrightarrow> 0 < k"
        "fill_page full (vals @ [ob]) tok (gen_of_list ys) =
           Inr \<lparr>rs_values = (vals @ [ob]) @ map fst (take k ys),
                rs_nextPageToken = (if k = 0 then tok else snd (ys ! (k - 1)))\<rparr>"
      by blast
    show ?thesis
      using False k by (intro exI[of _ "Suc k"]) (auto simp: y nth_Cons')
  qed
qed

lemma str_nat_nonempty: "str_nat n \<noteq> []"
  by (subst str_nat.simps) simp

lemma str_int_nonempty: "str_int i \<noteq> []"
  by (simp add: str_int_def str_nat_nonempty)

lemma take_upto: "k \<le> nat (n - s) \<Longrightarrow> take k [s..n - 1] = [s..s + int k - 1]"
proof (cases "k = 0")
  case True
  then show ?thesis by simp
next
  case False
  assume k: "k \<le> nat (n - s)"
  have "[s..n - 1] = [s..s + int k - 1] @ [s + int k - 1 + 1..n - 1]"
    using False k by (intro upto_split2) auto
  moreover have "length [s..s + int k - 1] = k" by simp
  ultimately show ?thesis by (metis append_eq_conv_conj)
qed

lemma page_at:
  assumes "start_index parser (rq_page_token rq) = Inr s" "0 \<le> s" "s < n"
    "0 \<le> rq_page_size rq" "0 \<le> defaultPageSize backend"
    "\<forall>i. s \<le> i \<and> i < n \<longrightarrow> g i = Inr (f i)"
  shows "\<exists>k. 0 < k \<and> s + int k \<le> n \<and>
           list_endpoint backend parser n g conv tier rq =
             Inr \<lparr>rs_values = map (\<lambda>i. conv (f i) tier) [s..s + int k - 1],
                  rs_nextPageToken =
                    (if s + int k = n then None else Some (str_int (s + int k)))\<rparr>"
proof -
  define ys where "ys = map (\<lambda>i. (conv (f i) tier, next_token_spec n i)) [s..n - 1]"
  define pageSize where
    "pageSize = (if rq_page_size rq = 0 then defaultPageSize backend else rq_page_size rq)"
  define full where
    "full = isFull pageSize (maxResponseLength backend) (serializedSize backend)"
  have ps: "\<not> pageSize < 0" using assms by (simp add: pageSize_def)
  have gen: "topLevelObjectGenerator parser (rq_page_token rq) n g conv tier = gen_of_list ys"
    using assms(1) object_loop_total[OF assms(6), of "\<lambda>ob. conv ob tier"]
    by (simp add: topLevelObjectGenerator_def ys_def)
  have ep: "list_endpoint backend parser n g conv tier rq =
      fill_page full [] None (gen_of_list ys)"
    using ps gen
    by (simp add: list_endpoint_def runSearchRequest_def Let_def pageSize_def[symmetric]
          full_def)
  have ne: "ys \<noteq> []" using assms by (simp add: ys_def)
  have len: "length ys = nat (n - s)" by (simp add: ys_def)
  from fill_page_list[of ys full "[]" None] ne obtain k where
    k: "k \<le> length ys" "0 < k"
      "fill_page full [] None (gen_of_list ys) =
         Inr \<lparr>rs_values = [] @ map fst (take k ys),
              rs_nextPageToken = (if k = 0 then None else snd (ys ! (k - 1)))\<rparr>"
    by blast
  have v: "map fst (take k ys) = map (\<lambda>i. conv (f i) tier) [s..s + int k - 1]"
    using k(1) len by (simp add: ys_def take_map take_upto comp_def)
  have t: "snd (ys ! (k - 1)) = (if s + int k = n then None else Some (str_int (s + int k)))"
    using k(1,2) len by (auto simp: ys_def next_token_spec_def)
  show ?thesis
    using k len v t ep by (intro exI[of _ k]) auto
qed

lemma follow_tokens_covers:
  assumes parser: "\<forall>k\<in>{1..<n}. parser (str_int k) 1 = Inr [k]"
    and fetch: "\<forall>i\<in>{0..<n}. g i = Inr (f i)"
    and sizes: "0 \<le> rq_page_size rq" "0 \<le> defaultPageSize backend"
  shows "0 < s \<Longrightarrow> s < n \<Longrightarrow> nat (n - s) \<le> fuel \<Longrightarrow>
         follow_tokens fuel (list_endpoint backend parser n g conv tier) rq acc
             (Some (str_int s)) =
           Some (Inr (acc @ map (\<lambda>i. conv (f i) tier) [s..n - 1]))"
  using sizes
proof (induction fuel arbitrary: s acc rq)
  case 0
  then show ?case by simp
next
  case (Suc fuel)
  obtain c cs where tok: "str_int s = c # cs"
    using str_int_nonempty[of s] by (cases "str_int s") auto
  let ?rq = "rq\<lparr>rq_page_token := c # cs\<rparr>"
  have "start_index parser (str_int s) = Inr s"
    using parser Suc.prems(1,2) str_int_nonempty[of s] by (simp add: start_index_def)
  then have st: "start_index parser (rq_page_token ?rq) = Inr s"
    by (simp add: tok)
  have fs: "\<forall>i. s \<le> i \<and> i < n \<longrightarrow> g i = Inr (f i)"
    using fetch Suc.prems(1) by auto
  from page_at[OF st _ _ _ _ fs, of backend conv tier] Suc.prems obtain k where
    k: "0 < k" "s + int k \<le> n"
      "list_endpoint backend parser n g conv tier ?rq =
         Inr \<lparr>rs_values = map (\<lambda>i. conv (f i) tier) [s..s + int k - 1],
              rs_nextPageToken =
                (if s + int k = n then None else Some (str_int (s + int k)))\<rparr>"
    by auto
  have split: "[s..n - 1] = [s..s + int k - 1] @ [s + int k..n - 1]"
    using k(1,2) upto_split2[of s "s + int k - 1" "n - 1"] by simp
  show ?case
  proof (cases "s + int k = n")
    case True
    then have "s + int k - 1 = n - 1" by simp
    then show ?thesis
      using True k(3) tok by simp
  next
    case False
    have "follow_tokens fuel (list_endpoint backend parser n g conv tier) ?rq
            (acc @ map (\<lambda>i. conv (f i) tier) [s..s + int k - 1]) (Some (str_int (s + int k))) =
          Some (Inr ((acc @ map (\<lambda>i. conv (f i) tier) [s..s + int k - 1]) @
            map (\<lambda>i. conv (f i) tier) [s + int k..n - 1]))"
      using False k Suc.prems by (intro Suc.IH) auto
    then show ?thesis
      using False k tok by (simp add: split)
  qed
qed

lemma all_pages_covers:
  assumes parser: "\<forall>k\<in>{1..<n}. parser (str_int k) 1 = Inr [k]"
    and fetch: "\<forall>i\<in>{0..<n}. g i = Inr (f i)"
    and sizes: "0 \<le> rq_page_size rq" "0 \<le> defaultPageSize backend"
    and start: "rq_page_token rq = []"
    and fuel: "nat n \<le> fuel"
  shows "all_pages fuel (list_endpoint backend parser n g conv tier) rq =
           Some (Inr (map (\<lambda>i. conv (f i) tier) [0..n - 1]))"
proof (cases "0 < n")
  case False
  have "list_endpoint backend parser n g conv tier rq =
      Inr \<lparr>rs_values = [], rs_nextPageToken = None\<rparr>"
    using False sizes start
    by (simp add: list_endpoint_def runSearchRequest_def Let_def topLevelObjectGenerator_def
          start_index_def object_loop.simps)
  then show ?thesis using False by (simp add: all_pages_def)
next
  case True
  have st: "start_index parser (rq_page_token rq) = Inr 0"
    using start by (simp add: start_index_def)
  have fs: "\<forall>i. 0 \<le> i \<and> i < n \<longrightarrow> g i = Inr (f i)"
    using fetch by auto
  from page_at[OF st _ _ _ _ fs, of backend conv tier] True sizes obtain k where
    k: "0 < k" "int k \<le> n"
      "list_endpoint backend parser n g conv tier rq =
         Inr \<lparr>rs_values = map (\<lambda>i. conv (f i) tier) [0..int k - 1],
              rs_nextPageToken = (if int k = n then None else Some (str_int (int k)))\<rparr>"
    by auto
  have split: "[0..n - 1] = [0..int k - 1] @ [int k..n - 1]"
    using k(1,2) upto_split2[of 0 "int k - 1" "n - 1"] by simp
  show ?thesis
  proof (cases "int k = n")
    case True
    then have "int k - 1 = n - 1" by simp
    then show ?thesis using True k(3) by (simp add: all_pages_def)
  next
    case False
    have "follow_tokens fuel (list_endpoint backend parser n g conv tier) rq
            (map (\<lambda>i. conv (f i) tier) [0..int k - 1]) (Some (str_int (int k))) =
          Some (Inr (map (\<lambda>i. conv (f i) tier) [0..int k - 1] @
            map (\<lambda>i. conv (f i) tier) [int k..n - 1]))"
      using False k fuel parser fetch sizes
        follow_tokens_covers[of n parser g f rq backend "int k" fuel conv tier
          "map (\<lambda>i. conv (f i) tier) [0..int k - 1]"]
      by auto
    then show ?thesis using False k by (simp add: all_pages_def split)
  qed
qed

text \<open>
  C4: started at the offset that the page token decodes to (0 for the empty token), the
  two paging generators yield, for each index \<open>i\<close> from the start while \<open>i < n\<close>, the
  object at \<open>i\<close> with the token of the next index: the decimal string of \<open>i + 1\<close>, or no
  token when \<open>i + 1 = n\<close>. When the tokens handed out decode to their index, following
  the tokens from the empty one until none comes back collects the \<open>n\<close> objects, each
  once and in order, whatever the page size and the byte budget cut the pages to.
\<close>

theorem paging_covers_all_objects:
  assumes "\<forall>i\<in>{min 0 s..<n}. getByIndexMethod i = Inr (f i)"
  shows "start_index parsePageToken [] = Inr 0 \<and>
     (start_index parsePageToken tok = Inr s \<longrightarrow>
        topLevelObjectGenerator parsePageToken tok n getByIndexMethod conv tier =
          gen_of_list (map (\<lambda>i. (conv (f i) tier, next_token_spec n i)) [s..n - 1]) \<and>
        protocolObjectGenerator parsePageToken tok n getByIndexMethod =
          gen_of_list (map (\<lambda>i. (f i, next_token_spec n i)) [s..n - 1])) \<and>
     ((\<forall>k\<in>{1..<n}. parsePageToken (str_int k) 1 = Inr [k]) \<longrightarrow>
      0 \<le> rq_page_size rq \<longrightarrow> 0 \<le> defaultPageSize backend \<longrightarrow> rq_page_token rq = [] \<longrightarrow>
      nat n \<le> fuel \<longrightarrow>
        all_pages fuel (list_endpoint backend parsePageToken n getByIndexMethod conv tier) rq =
          Some (Inr (map (\<lambda>i. conv (f i) tier) [0..n - 1])))"
proof (intro conjI impI)
  show "start_index parsePageToken [] = Inr 0"
    by (simp add: start_index_def)
next
  assume s: "start_index parsePageToken tok = Inr s"
  have fs: "\<forall>i. s \<le> i \<and> i < n \<longrightarrow> getByIndexMethod i = Inr (f i)"
    using assms by auto
  show "topLevelObjectGenerator parsePageToken tok n getByIndexMethod conv tier =
      gen_of_list (map (\<lambda>i. (conv (f i) tier, next_token_spec n i)) [s..n - 1])"
    using s(1) object_loop_total[OF fs, of "\<lambda>ob. conv ob tier"]
    by (simp add: topLevelObjectGenerator_def)
  show "protocolObjectGenerator parsePageToken tok n getByIndexMethod =
      gen_of_list (map (\<lambda>i. (f i, next_token_spec n i)) [s..n - 1])"
    using s(1) object_loop_total[OF fs, of "\<lambda>ob. ob"]
    by (simp add: protocolObjectGenerator_def)
next
  assume "\<forall>k\<in>{1..<n}. parsePageToken (str_int k) 1 = Inr [k]"
    "0 \<le> rq_page_size rq" "0 \<le> defaultPageSize backend" "rq_page_token rq = []"
    "nat n \<le> fuel"
  then show "all_pages fuel
      (list_endpoint backend parsePageToken n getByIndexMethod conv tier) rq =
        Some (Inr (map (\<lambda>i. conv (f i) tier) [0..n - 1]))"
    using assms by (intro all_pages_covers) auto
qed

lemma str_int_1_2: "str_int 1 = ''1''" "str_int 2 = ''2''"
  by (simp_all add: str_int_def str_nat.simps digit_char_def)

lemma parsePageToken_spec_1_2:
  "parsePageToken_spec ''1'' (Suc 0) = Inr [1]" "parsePageToken_spec ''2'' (Suc 0) = Inr [2]"
  by (simp_all add: parsePageToken_spec_def int_of_str_def digit_val_def)

theorem paging_covers_all_objects_witness:
  "topLevelObjectGenerator parsePageToken_spec ''1'' 3 (\<lambda>i. Inr (fetch0 i)) conv0 1 =
     Yield (11, Some ''2'') (Yield (21, None) Done) \<and>
   protocolObjectGenerator parsePageToken_spec [] 3 (\<lambda>i. Inr (fetch0 i)) =
     Yield (0, Some ''1'') (Yield (10, Some ''2'') (Yield (20, None) Done)) \<and>
   all_pages 3 (list_endpoint backend0 parsePageToken_spec 3 (\<lambda>i. Inr (fetch0 i)) conv0 1) rq0 =
     Some (Inr [1, 11, 21])"
proof -
  have fetch: "\<forall>i\<in>{min 0 s..<3}. (\<lambda>i. Inr (fetch0 i) :: error + int) i = Inr (fetch0 i)"
    for s :: int
    by simp
  have parser: "\<forall>k\<in>{1..<3}. parsePageToken_spec (str_int k) 1 = Inr [k]"
  proof
    fix k :: int
    assume "k \<in> {1..<3}"
    then have "k = 1 \<or> k = 2" by auto
    then show "parsePageToken_spec (str_int k) 1 = Inr [k]"
      by (auto simp: str_int_1_2 parsePageToken_spec_1_2)
  qed
  have u: "[1..2] = [1, 2::int]" "[0..2] = [0, 1, 2::int]"
    by (simp_all add: upto.simps)
  have s1: "start_index parsePageToken_spec ''1'' = Inr 1"
    by (simp add: start_index_def parsePageToken_spec_1_2)
  note t = paging_covers_all_objects[OF fetch, of parsePageToken_spec]
  have a: "topLevelObjectGenerator parsePageToken_spec ''1'' 3 (\<lambda>i. Inr (fetch0 i)) conv0 1 =
     Yield (11, Some ''2'') (Yield (21, None) Done)"
    using t[of "''1''" 1 conv0 1 rq0 backend0 3] s1
    by (simp add: u next_token_spec_def str_int_1_2 fetch0_def conv0_def)
  have b: "protocolObjectGenerator parsePageToken_spec [] 3 (\<lambda>i. Inr (fetch0 i)) =
     Yield (0, Some ''1'') (Yield (10, Some ''2'') (Yield (20, None) Done))"
    using t[of "[]" 0 conv0 1 rq0 backend0 3]
    by (simp add: u next_token_spec_def str_int_1_2 fetch0_def)
  have c: "all_pages 3
      (list_endpoint backend0 parsePageToken_spec 3 (\<lambda>i. Inr (fetch0 i)) conv0 1) rq0 =
     Some (Inr [1, 11, 21])"
    using t[of "[]" 0 conv0 1 rq0 backend0 3] parser
    by (simp add: u rq0_def backend0_def fetch0_def conv0_def)
  show ?thesis using a b c by simp
qed

section \<open>The logic of an advanced query\<close>

lemma and_sets_inter:
  assumes "results_arr \<noteq> []"
  shows "\<exists>r. and_sets results_arr = Inr r \<and> fset r = (\<Inter>s\<in>set results_arr. fset s)"
proof -
  have "sort_key fcard results_arr \<noteq> []"
    using assms by (metis length_sort length_0_conv)
  then obtain smallest others where so: "sort_key fcard results_arr = smallest # others"
    by (cases "sort_key fcard results_arr") auto
  have s: "set results_arr = insert smallest (set others)"
    using set_sort[of fcard results_arr] so by simp
  show ?thesis
    by (auto simp: and_sets_def so s list_all_iff)
qed


lemma logicHandler_all_Inr_D:
  "logicHandler_all env cs = Inr rs \<Longrightarrow>
     (\<forall>c\<in>set cs. \<exists>r. logicHandler env c = Inr r) \<and> rs = map (result_of env) cs"
  by (induction cs arbitrary: rs) (auto simp: result_of_def split: sum.splits)

lemma logicHandler_all_Inr_I:
  "\<forall>c\<in>set cs. \<exists>r. logicHandler env c = Inr r \<Longrightarrow>
     logicHandler_all env cs = Inr (map (result_of env) cs)"
  by (induction cs) (auto simp: result_of_def split: sum.splits)

text \<open>
  C1: when the children of an \<^verbatim>\<open>and\<close> node, at least one, evaluate to sets of keys, the
  node evaluates to the intersection of these sets, and so does the node with the
  same children in any other order.
\<close>

theorem and_is_intersection:
  assumes "children \<noteq> []"
    and "logicHandler_all env children = Inr results_arr"
    and "mset permuted = mset children"
  shows "\<exists>r. logicHandler env (JObj [(''and'', JArr children)]) = Inr r \<and>
             fset r = (\<Inter>s\<in>set results_arr. fset s) \<and>
             logicHandler env (JObj [(''and'', JArr permuted)]) = Inr r"
proof -
  note d = logicHandler_all_Inr_D[OF assms(2)]
  have ne: "results_arr \<noteq> []"
    using assms(1) d by auto
  from and_sets_inter[OF ne] obtain r where
    r: "and_sets results_arr = Inr r" "fset r = (\<Inter>s\<in>set results_arr. fset s)"
    by blast
  have sp: "set permuted = set children"
    using assms(3) by (rule mset_eq_setD)
  have pa: "logicHandler_all env permuted = Inr (map (result_of env) permuted)"
    using d sp by (intro logicHandler_all_Inr_I) simp
  have ps: "set (map (result_of env) permuted) = set results_arr"
    using d sp by simp
  have pne: "map (result_of env) permuted \<noteq> []"
    using ps ne by (metis set_empty)
  from and_sets_inter[OF pne] obtain r' where
    r': "and_sets (map (result_of env) permuted) = Inr r'"
      "fset r' = (\<Inter>s\<in>set (map (result_of env) permuted). fset s)"
    by blast
  have "fset r' = fset r"
    unfolding r(2) r'(2) ps ..
  then have "r' = r" by (simp add: fset_inject)
  then show ?thesis
    using r r' assms(2) pa by (auto simp: op_keys_def combine_def)
qed


lemmas logic_example_defs = env0_def row_of_def node_a_def node_b_def node_c_def
  id_branch_def getResponsePatientId_def op_keys_def

theorem and_is_intersection_witness:
  "logicHandler env0 (JObj [(''and'', JArr [node_a, node_b, node_c])]) = Inr {|''p3''|} \<and>
   logicHandler env0 (JObj [(''and'', JArr [node_c, node_a, node_b])]) = Inr {|''p3''|}"
proof -
  have ne: "[node_a, node_b, node_c] \<noteq> []"
    by simp
  have la: "logicHandler_all env0 [node_a, node_b, node_c] =
      Inr [{|''p3'', ''p2'', ''p1''|}, {|''p3'', ''p2''|}, {|''p4'', ''p3''|}]"
    by (simp add: logic_example_defs)
  have pm: "mset [node_c, node_a, node_b] = mset [node_a, node_b, node_c]"
    by simp
  from and_is_intersection[OF ne la pm] obtain r where
    r: "logicHandler env0 (JObj [(''and'', JArr [node_a, node_b, node_c])]) = Inr r"
      "fset r = (\<Inter>s\<in>set [{|''p3'', ''p2'', ''p1''|}, {|''p3'', ''p2''|}, {|''p4'', ''p3''|}]. fset s)"
      "logicHandler env0 (JObj [(''and'', JArr [node_c, node_a, node_b])]) = Inr r"
    by blast
  have "fset r = fset {|''p3''|}"
    using r(2) by auto
  then have "r = {|''p3''|}"
    by (simp only: fset_inject)
  then show ?thesis using r by simp
qed

section \<open>The results of an advanced query\<close>

lemma table_alias_key: "table \<in> set endpointMapper_keys \<Longrightarrow> table_alias table = table"
  by (auto simp: endpointMapper_keys_def table_alias_def)

text \<open>
  C5, as the claim states it, fails: a count query without fields raises the
  missing-field error although the set of join keys is empty.
\<close>

theorem empty_join_counterexample:
  "resultsHandler False endpoints0 [\<lparr>res_table = Some ''patients'', res_fields = None\<rparr>] []
     ''d'' None True =
   Inl (MissingFieldNameException ''Fields list required for count query'')"
  by (simp add: resultsHandler_def has_fields_def)

text \<open>
  C5, amended: when the table of the results is one of the endpoints of the backend and
  the request is not a count query without fields, an empty list of join keys makes
  \<^verbatim>\<open>resultsHandler\<close> return the object that maps the table to the empty list, with no
  token of a next page, whatever the fields are and without calling any endpoint.
\<close>

theorem empty_join_short_circuit:
  assumes "table \<in> set endpointMapper_keys"
    and "\<not> (is_count \<and> \<not> has_fields field_list)"
  shows "resultsHandler dpEpsilon endpoints
           (\<lparr>res_table = Some table, res_fields = field_list\<rparr> # others) [] dataset_id page_token
           is_count =
         Inr (JObj [(table, JArr [])])"
  using assms by (auto simp: resultsHandler_def table_alias_key)

theorem empty_join_short_circuit_witness:
  "resultsHandler False (\<lambda>table rq. Inl TypeError)
     [\<lparr>res_table = Some ''samples'', res_fields = Some [''sampleType'']\<rparr>] [] ''d''
     (Some ''5'') True =
   Inr (JObj [(''samples'', JArr [])])"
proof -
  have k: "''samples'' \<in> set endpointMapper_keys"
    by (simp add: endpointMapper_keys_def)
  have c: "\<not> (True \<and> \<not> has_fields (Some [''sampleType'']))"
    by (simp add: has_fields_def)
  show ?thesis
    by (rule empty_join_short_circuit[OF k c])
qed

lemma variantsByGene_is_no_table:
  "resultsHandler dpEpsilon endpoints
     [\<lparr>res_table = Some ''variantsByGene'', res_fields = field_list\<rparr>] [] dataset_id page_token
     False =
   Inl (MissingFieldNameException ''Invalid results table specified'')"
  by (simp add: resultsHandler_def endpointMapper_keys_def)

section \<open>Aggregation\<close>





lemma str_items_those: "str_items xs = those (map text_of_spec xs)"
proof (induction xs)
  case Nil
  then show ?case by simp
next
  case (Cons x xs)
  then show ?case by (cases x) (simp_all add: map_option_case)
qed

lemma join_comma_concat:
  "join_comma ss = (case ss of [] \<Rightarrow> [] | s # rest \<Rightarrow> s @ concat (map (\<lambda>t. '','' @ t) rest))"
  by (induction ss rule: join_comma.induct) simp_all

lemma join_comma_sort: "join_comma (sort ss) = composite_key_spec ss"
  unfolding composite_key_spec_def by (rule join_comma_concat)

lemma bucket_key_spec:
  "bucket_key v = (case key_of_spec v of None \<Rightarrow> Inl TypeError | Some w \<Rightarrow> Inr w)"
  by (cases v) (simp_all add: key_of_spec_def str_items_those join_comma_sort split: option.splits)















lemma count_items_total:
  "list_all (\<lambda>(k, v). k \<in> set field \<longrightarrow> key_of_spec v \<noteq> None) items \<Longrightarrow>
     \<exists>c. count_items field items acc = Inr c"
proof (induction items arbitrary: acc)
  case Nil
  then show ?case by simp
next
  case (Cons item items)
  obtain k v where item: "item = (k, v)" by (cases item)
  show ?case
    using Cons.prems Cons.IH
    by (auto simp: item bucket_key_spec split: option.splits)
qed


lemma count_items_error:
  "\<not> list_all (\<lambda>(k, v). k \<in> set field \<longrightarrow> key_of_spec v \<noteq> None) items \<Longrightarrow>
     count_items field items acc = Inl TypeError"
proof (induction items arbitrary: acc)
  case Nil
  then show ?case by simp
next
  case (Cons item items)
  obtain k v where item: "item = (k, v)" by (cases item)
  show ?case
    using Cons.prems Cons.IH
    by (auto simp: item bucket_key_spec split: option.splits)
qed

lemma count_items_cases:
  "count_items field items acc = Inl TypeError \<or> (\<exists>c. count_items field items acc = Inr c)"
  using count_items_error count_items_total by blast

lemma count_entries_error:
  "\<not> countable_spec field entries \<Longrightarrow> count_entries field entries acc = Inl TypeError"
proof (induction entries arbitrary: acc)
  case Nil
  then show ?case by (simp add: countable_spec_def)
next
  case (Cons entry entries)
  show ?case
  proof (cases "list_all (\<lambda>(k, v). k \<in> set field \<longrightarrow> key_of_spec v \<noteq> None) entry")
    case False
    then show ?thesis by (simp add: count_items_error)
  next
    case True
    with Cons.prems have "\<not> countable_spec field entries"
      by (simp add: countable_spec_def)
    from Cons.IH [OF this] show ?thesis
      using count_items_total [OF True, of acc] by auto
  qed
qed






text \<open>
  Outside these rows the handler counts nothing: a requested field that holds an
  object, or a list with anything but strings, ends it with a \<^verbatim>\<open>TypeError\<close>. With an
  epsilon set and counts to return, it reaches the name \<^verbatim>\<open>DP\<close>, which the module never
  imports.
\<close>

lemma aggregation_uncountable:
  assumes "map_of (sr_tables r) (table_alias table) = Some entries"
    and "\<not> countable_spec field entries"
  shows "aggregationHandler dpEpsilon table r field = Inl TypeError"
  using assms count_entries_error [of field entries "[]"]
  by (simp add: aggregationHandler_def)

lemma aggregation_with_epsilon:
  assumes "map_of (sr_tables r) (table_alias table) = Some entries"
    and "count_entries field entries [] = Inr c" and "c \<noteq> []"
  shows "aggregationHandler True table r field = Inl NameError"
  using assms by (simp add: aggregationHandler_def countHelper_def)

section \<open>Compound identifiers\<close>

text \<open>
  C2: the round trip does not hold for every string. A local id that is a single
  backslash gives the identifier \<^verbatim>\<open>WyJcIl0\<close>, the text \<^verbatim>\<open>["\"]\<close>, which is no JSON: the
  identifier that the server has made itself is not found. A backslash before a
  letter is read back as an escape: the local id \<^verbatim>\<open>a\b\<close> comes back as \<^verbatim>\<open>a\<close> followed
  by a backspace. Strings without such characters do come back, here for the class
  of patients.
\<close>

theorem roundtrip_backslash_fails:
  "CompoundId DatasetCompoundId None [[backslash]] =
     Inr \<lparr>cid_class = DatasetCompoundId,
          cid_attrs = [(py ''dataset'', [backslash]), (py ''dataset_id'', py ''WyJcIl0'')]\<rparr> \<and>
   roundtrip DatasetCompoundId [[backslash]] = Inl ObjectWithIdNotFoundException \<and>
   roundtrip DatasetCompoundId [py ''a'' @ [backslash] @ py ''b''] =
     CompoundId DatasetCompoundId None [py ''a'' @ [8]] \<and>
   roundtrip PatientCompoundId [py ''ds1'', py ''p1''] =
     CompoundId PatientCompoundId None [py ''ds1'', py ''p1'']"
  by code_simp

text \<open>
  C3: not every string that is no identifier is an object not found. \<^verbatim>\<open>NQ\<close> is the
  base64 text of \<^verbatim>\<open>5\<close>, which is JSON for a number: the loop over the splits raises a
  \<^verbatim>\<open>TypeError\<close>, which no clause of \<^verbatim>\<open>parse\<close> catches. A string outside ASCII is refused
  by the base64 decoder with a \<^verbatim>\<open>ValueError\<close>, which is not a \<^verbatim>\<open>binascii.Error\<close>; the
  text \<^verbatim>\<open>[1]\<close> raises an \<^verbatim>\<open>AttributeError\<close>. A text that cannot be decoded at all is an
  object not found, as the claim says.
\<close>

theorem parse_error_not_not_found:
  "parse DatasetCompoundId (py ''NQ'') = Inl TypeError \<and>
   parse DatasetCompoundId [233] = Inl ValueError \<and>
   parse DatasetCompoundId (py ''WzFd'') = Inl AttributeError \<and>
   parse DatasetCompoundId (py ''A'') = Inl ObjectWithIdNotFoundException \<and>
   parse DatasetCompoundId (py ''WyJhIl0_'') = Inl ObjectWithIdNotFoundException \<and>
   parse PatientCompoundId (py ''WyJhIl0'') = Inl ObjectWithIdNotFoundException"
  by code_simp

text \<open>
  What \<^verbatim>\<open>parse\<close> does turn into an object not found: a text that the base64 decoder
  refuses with \<^verbatim>\<open>binascii.Error\<close>, bytes that are not UTF-8, a text that is not JSON, and
  a number of splits that does not fit the class.
\<close>

lemma parse_not_found_cases:
  "(deobfuscate s = Inl BinasciiError \<longrightarrow> parse cls s = Inl ObjectWithIdNotFoundException) \<and>
   (urlsafe_b64decode (s @ drop ((length s + 3) mod 4) (py ''A=='')) = Inr bs \<longrightarrow>
    utf8_decode bs = Inl e \<longrightarrow> parse cls s = Inl ObjectWithIdNotFoundException) \<and>
   (deobfuscate s = Inr t \<longrightarrow> json_loads t = Inl e' \<longrightarrow>
    parse cls s = Inl ObjectWithIdNotFoundException) \<and>
   (deobfuscate s = Inr t \<longrightarrow> json_loads t = Inr v \<longrightarrow> decode_splits v = Inr splits \<longrightarrow>
    cls_differentiator cls = None \<longrightarrow> length splits \<noteq> length (cls_fields cls) \<longrightarrow>
    parse cls s = Inl ObjectWithIdNotFoundException)"
proof -
  have j: "json_loads t = Inl e' \<Longrightarrow> e' = ValueError" for t e'
    by (auto simp: json_loads_def split: option.splits)
  show ?thesis
    by (auto simp: parse_def deobfuscate_def dest: j split: sum.splits)
qed

end
